theory Spec2Isabelle
  imports Complex_Main "HOL-Library.Sublist"
begin

section \<open>Configuration (src/config/security.ts)\<close>

text \<open>
  Times are milliseconds as returned by \<^verbatim>\<open>Date.now()\<close>; counters are JavaScript numbers
  that only ever hold integers. Both are modelled as \<^typ>\<open>int\<close>. A source function that reads
  \<^verbatim>\<open>Date.now()\<close> several times during one synchronous run is given one reading \<open>now\<close>.
\<close>

definition MAX_CONCURRENT_CONNECTIONS :: int where
  "MAX_CONCURRENT_CONNECTIONS = 100"

definition MAX_SLOW_CONNECTIONS :: int where
  "MAX_SLOW_CONNECTIONS = 50"

definition SLOW_LORIS_BLOCK_DURATION :: int where
  "SLOW_LORIS_BLOCK_DURATION = 600000"

definition SLOW_LORIS_GRACE_PERIOD :: int where
  "SLOW_LORIS_GRACE_PERIOD = 30000"

definition CONNECTION_TIMEOUT :: int where
  "CONNECTION_TIMEOUT = 300000"

definition DOWNLOAD_MAX_SLOW_DOWNLOADS :: int where
  "DOWNLOAD_MAX_SLOW_DOWNLOADS = 5"

definition DOWNLOAD_MIN_TRANSFER_RATE :: rat where
  "DOWNLOAD_MIN_TRANSFER_RATE = 256"

definition DOWNLOAD_MAX_DOWNLOAD_DURATION :: int where
  "DOWNLOAD_MAX_DOWNLOAD_DURATION = 3600000"

definition DOWNLOAD_SLOW_DOWNLOAD_THRESHOLD :: rat where
  "DOWNLOAD_SLOW_DOWNLOAD_THRESHOLD = 128"

definition DOWNLOAD_BLOCK_DURATION :: int where
  "DOWNLOAD_BLOCK_DURATION = 300000"

section \<open>Connection tracking (SlowLorisProtection, non-download requests)\<close>

record ConnectionTracker =
  ip :: string
  connections :: int
  slowConnections :: int
  lastActivity :: int
  isBlocked :: bool
  blockUntil :: int
  firstConnection :: int
  requestCount :: int
  timeoutCount :: int

text \<open>
  The download tracker has four fields with the same names as the connection tracker
  (\<open>ip\<close>, \<open>lastActivity\<close>, \<open>isBlocked\<close>, \<open>blockUntil\<close>); they carry the prefix \<open>dl_\<close> here.
  \<open>transferRate\<close> is the only field that holds a fraction. It is the result of a
  JavaScript division, which yields \<open>Infinity\<close> or \<open>NaN\<close> on a zero divisor, so it has a
  type of its own; finite values are exact rationals (rounding is not modelled).
\<close>

datatype jsnum = Num rat | PosInfinity | NegInfinity | NaN

definition js_div :: "rat \<Rightarrow> rat \<Rightarrow> jsnum" where
  "js_div a b =
     (if b \<noteq> 0 then Num (a / b)
      else if a = 0 then NaN
      else if 0 < a then PosInfinity else NegInfinity)"

fun js_lt :: "jsnum \<Rightarrow> rat \<Rightarrow> bool" where
  "js_lt (Num x) c = (x < c)"
| "js_lt PosInfinity c = False"
| "js_lt NegInfinity c = True"
| "js_lt NaN c = False"

record DownloadTracker =
  dl_ip :: string
  activeDownloads :: int
  slowDownloads :: int
  totalBytesTransferred :: int
  dl_lastActivity :: int
  dl_isBlocked :: bool
  dl_blockUntil :: int
  downloadStartTime :: int
  lastTransferTime :: int
  transferRate :: jsnum

text \<open>
  The static state of the class. Connection trackers are reached only through
  \<open>connectionMap\<close> and its key, so the map holds them by value. Download trackers are also
  captured by the closures that \<open>setupDownloadMonitoring\<close> installs, so they live in an object
  store \<open>trackers\<close> (addresses are natural numbers, \<open>allocated\<close> is the next free one) and
  \<open>downloadMap\<close> maps a client to the address of its tracker. \<open>cleanupInterval\<close> tells
  whether the 30-second interval timer is active.
\<close>

record guard =
  connectionMap :: "string \<rightharpoonup> ConnectionTracker"
  downloadMap :: "string \<rightharpoonup> nat"
  trackers :: "nat \<Rightarrow> DownloadTracker"
  allocated :: nat
  cleanupInterval :: bool

definition isIpBlocked :: "string \<Rightarrow> int \<Rightarrow> guard \<Rightarrow> bool \<times> guard" where
  "isIpBlocked clientIp now g =
     (case connectionMap g clientIp of
        None \<Rightarrow> (False, g)
      | Some tracker \<Rightarrow>
          if isBlocked tracker \<and> now < blockUntil tracker then (True, g)
          else if isBlocked tracker \<and> blockUntil tracker \<le> now
          then (False, g\<lparr>connectionMap := (connectionMap g)
                  (clientIp \<mapsto> tracker\<lparr>isBlocked := False, blockUntil := 0\<rparr>)\<rparr>)
          else (False, g))"

definition getBlockTime :: "string \<Rightarrow> guard \<Rightarrow> int" where
  "getBlockTime clientIp g =
     (case connectionMap g clientIp of None \<Rightarrow> 0 | Some tracker \<Rightarrow> blockUntil tracker)"

definition newConnectionTracker :: "string \<Rightarrow> int \<Rightarrow> ConnectionTracker" where
  "newConnectionTracker clientIp now =
     \<lparr>ip = clientIp, connections = 0, slowConnections = 0, lastActivity = now,
      isBlocked = False, blockUntil = 0, firstConnection = now,
      requestCount = 0, timeoutCount = 0\<rparr>"

definition adaptiveThreshold :: "int \<Rightarrow> int" where
  "adaptiveThreshold timeSinceFirstConnection =
     min MAX_CONCURRENT_CONNECTIONS (max 20 (timeSinceFirstConnection div 5000))"

definition timeoutRatio :: "ConnectionTracker \<Rightarrow> rat" where
  "timeoutRatio tracker =
     rat_of_int (timeoutCount tracker) / rat_of_int (max (requestCount tracker) 1)"

definition shouldBlock :: "ConnectionTracker \<Rightarrow> int \<Rightarrow> bool" where
  "shouldBlock tracker now =
     (let timeSinceFirstConnection = now - firstConnection tracker in
        adaptiveThreshold timeSinceFirstConnection < connections tracker \<and>
        SLOW_LORIS_GRACE_PERIOD < timeSinceFirstConnection \<and>
        (1 / 2 < timeoutRatio tracker \<or> MAX_SLOW_CONNECTIONS < connections tracker))"

definition addConnection :: "string \<Rightarrow> int \<Rightarrow> guard \<Rightarrow> guard" where
  "addConnection clientIp now g =
     (let tracker0 = (case connectionMap g clientIp of
                        None \<Rightarrow> newConnectionTracker clientIp now
                      | Some t \<Rightarrow> t);
          tracker1 = tracker0\<lparr>connections := connections tracker0 + 1,
                              lastActivity := now,
                              requestCount := requestCount tracker0 + 1\<rparr>;
          tracker2 = (if shouldBlock tracker1 now
                      then tracker1\<lparr>isBlocked := True,
                                    blockUntil := now + SLOW_LORIS_BLOCK_DURATION\<rparr>
                      else tracker1)
      in g\<lparr>connectionMap := (connectionMap g)(clientIp \<mapsto> tracker2)\<rparr>)"

definition removeConnection :: "string \<Rightarrow> int \<Rightarrow> guard \<Rightarrow> guard" where
  "removeConnection clientIp now g =
     (case connectionMap g clientIp of
        None \<Rightarrow> g
      | Some tracker \<Rightarrow>
          if 0 < connections tracker
          then g\<lparr>connectionMap := (connectionMap g)
                  (clientIp \<mapsto> tracker\<lparr>connections := connections tracker - 1,
                                         lastActivity := now\<rparr>)\<rparr>
          else g)"

definition recordTimeout :: "string \<Rightarrow> int \<Rightarrow> guard \<Rightarrow> guard" where
  "recordTimeout clientIp now g =
     (case connectionMap g clientIp of
        None \<Rightarrow> g
      | Some tracker \<Rightarrow>
          (let tracker1 = tracker\<lparr>timeoutCount := timeoutCount tracker + 1,
                                  slowConnections := slowConnections tracker + 1\<rparr>;
               tracker2 = (if 7 / 10 < timeoutRatio tracker1 \<and> 10 < timeoutCount tracker1
                           then tracker1\<lparr>isBlocked := True,
                                         blockUntil := now + SLOW_LORIS_BLOCK_DURATION\<rparr>
                           else tracker1)
           in g\<lparr>connectionMap := (connectionMap g)(clientIp \<mapsto> tracker2)\<rparr>))"

text \<open>
  The \<open>retryAfter\<close> of a 429 reply, \<open>Math.ceil((blockTime - Date.now()) / 1000)\<close>: the
  ceiling of the exact quotient.
\<close>

definition retryAfter :: "int \<Rightarrow> int \<Rightarrow> int" where
  "retryAfter blockTime now = \<lceil>rat_of_int (blockTime - now) / 1000\<rceil>"

section \<open>Download tracking (SlowLorisProtection, GET /snapshots/...)\<close>

definition isDownloadBlocked :: "string \<Rightarrow> int \<Rightarrow> guard \<Rightarrow> bool \<times> guard" where
  "isDownloadBlocked clientIp now g =
     (case downloadMap g clientIp of
        None \<Rightarrow> (False, g)
      | Some a \<Rightarrow>
          (let tracker = trackers g a in
             if dl_isBlocked tracker \<and> now < dl_blockUntil tracker then (True, g)
             else if dl_isBlocked tracker \<and> dl_blockUntil tracker \<le> now
             then (False, g\<lparr>trackers := (trackers g)
                     (a := tracker\<lparr>dl_isBlocked := False, dl_blockUntil := 0\<rparr>)\<rparr>)
             else (False, g)))"

definition getDownloadBlockTime :: "string \<Rightarrow> guard \<Rightarrow> int" where
  "getDownloadBlockTime clientIp g =
     (case downloadMap g clientIp of None \<Rightarrow> 0 | Some a \<Rightarrow> dl_blockUntil (trackers g a))"

definition newDownloadTracker :: "string \<Rightarrow> int \<Rightarrow> DownloadTracker" where
  "newDownloadTracker clientIp now =
     \<lparr>dl_ip = clientIp, activeDownloads = 0, slowDownloads = 0, totalBytesTransferred = 0,
      dl_lastActivity = now, dl_isBlocked = False, dl_blockUntil = 0,
      downloadStartTime = now, lastTransferTime = now, transferRate = Num 0\<rparr>"

definition addDownload :: "string \<Rightarrow> int \<Rightarrow> guard \<Rightarrow> guard" where
  "addDownload clientIp now g =
     (let (a, g1) = (case downloadMap g clientIp of
                       Some a \<Rightarrow> (a, g)
                     | None \<Rightarrow>
                         (allocated g,
                          g\<lparr>trackers := (trackers g)
                               (allocated g := newDownloadTracker clientIp now),
                            downloadMap := (downloadMap g)(clientIp \<mapsto> allocated g),
                            allocated := allocated g + 1\<rparr>));
          tracker0 = trackers g1 a;
          tracker1 = tracker0\<lparr>activeDownloads := activeDownloads tracker0 + 1,
                              dl_lastActivity := now,
                              downloadStartTime := now,
                              lastTransferTime := now\<rparr>;
          tracker2 = (if DOWNLOAD_MAX_SLOW_DOWNLOADS < activeDownloads tracker1
                      then tracker1\<lparr>dl_isBlocked := True,
                                    dl_blockUntil := now + DOWNLOAD_BLOCK_DURATION\<rparr>
                      else tracker1)
      in g1\<lparr>trackers := (trackers g1)(a := tracker2)\<rparr>)"

definition removeDownload :: "string \<Rightarrow> int \<Rightarrow> guard \<Rightarrow> guard" where
  "removeDownload clientIp now g =
     (case downloadMap g clientIp of
        None \<Rightarrow> g
      | Some a \<Rightarrow>
          (let tracker = trackers g a in
             if 0 < activeDownloads tracker
             then g\<lparr>trackers := (trackers g)
                     (a := tracker\<lparr>activeDownloads := activeDownloads tracker - 1,
                                    dl_lastActivity := now\<rparr>)\<rparr>
             else g))"

text \<open>
  The closure of \<open>setupDownloadMonitoring\<close>: the tracker object it captured, its local
  variables \<open>bytesTransferred\<close> and \<open>startTime\<close>, and the pending watchdog timer
  (\<open>Some deadline\<close> while it is armed, \<open>None\<close> once it has run or was cleared).
  The function returns without installing anything when the client has no tracker.
\<close>

record download =
  trackerRef :: nat
  bytesTransferred :: int
  startTime :: int
  downloadTimeout :: "int option"

definition setupDownloadMonitoring :: "string \<Rightarrow> int \<Rightarrow> guard \<Rightarrow> download option" where
  "setupDownloadMonitoring clientIp now g =
     (case downloadMap g clientIp of
        None \<Rightarrow> None
      | Some a \<Rightarrow>
          Some \<lparr>trackerRef = a, bytesTransferred = 0, startTime = now,
                downloadTimeout = Some (now + DOWNLOAD_MAX_DOWNLOAD_DURATION)\<rparr>)"

text \<open>
  A chunk handed to \<open>res.write\<close> or \<open>res.end\<close>: none (the argument is missing), a
  \<open>Buffer\<close> of some length, or a string. Only buffers are counted.
\<close>

datatype chunk = NoChunk | Buffer nat | OtherChunk

definition res_write :: "chunk \<Rightarrow> int \<Rightarrow> download \<Rightarrow> guard \<Rightarrow> download \<times> guard" where
  "res_write c now d g =
     (case c of
        Buffer len \<Rightarrow>
          (let d1 = d\<lparr>bytesTransferred := bytesTransferred d + int len\<rparr>;
               tracker0 = trackers g (trackerRef d);
               tracker1 = tracker0\<lparr>totalBytesTransferred :=
                                      totalBytesTransferred tracker0 + int len\<rparr>;
               timeElapsed = now - lastTransferTime tracker1;
               tracker2 =
                 (if 1000 < timeElapsed
                  then (let tracker' = tracker1
                              \<lparr>transferRate :=
                                 js_div (rat_of_int (bytesTransferred d1))
                                        (rat_of_int (now - startTime d1) / 1000),
                               lastTransferTime := now\<rparr>
                        in if js_lt (transferRate tracker') DOWNLOAD_SLOW_DOWNLOAD_THRESHOLD
                           then tracker'\<lparr>slowDownloads := slowDownloads tracker' + 1\<rparr>
                           else tracker')
                  else tracker1)
           in (d1, g\<lparr>trackers := (trackers g)(trackerRef d := tracker2)\<rparr>))
      | _ \<Rightarrow> (d, g))"

definition res_end :: "chunk \<Rightarrow> download \<Rightarrow> guard \<Rightarrow> download \<times> guard" where
  "res_end c d g =
     (case c of
        Buffer len \<Rightarrow>
          (let tracker0 = trackers g (trackerRef d)
           in (d\<lparr>bytesTransferred := bytesTransferred d + int len\<rparr>,
               g\<lparr>trackers := (trackers g)
                    (trackerRef d := tracker0\<lparr>totalBytesTransferred :=
                                                 totalBytesTransferred tracker0 + int len\<rparr>)\<rparr>))
      | _ \<Rightarrow> (d, g))"

text \<open>A sequence of \<open>res.write\<close> calls on one response, each with its chunk and its time.\<close>

fun writes :: "(chunk \<times> int) list \<Rightarrow> download \<times> guard \<Rightarrow> download \<times> guard" where
  "writes [] dg = dg"
| "writes ((c, now) # ws) dg = writes ws (res_write c now (fst dg) (snd dg))"

text \<open>
  What the guard needs of the response object. \<open>res.write\<close> sends the headers if they are
  not sent yet, \<open>res.end\<close> sends them and ends the response.
  \<open>res.status(c).json(body)\<close> sets the status and ends the response through \<open>res.end\<close>,
  handing it the body as a \<open>Buffer\<close>; on a download that \<open>res.end\<close> is the wrapper of
  \<open>setupDownloadMonitoring\<close>, which counts the bytes. The body of the watchdog's reply,
  \<^verbatim>\<open>{"error":"Download too slow, connection terminated"}\<close>, has 52 bytes.
\<close>

record response =
  statusCode :: int
  headersSent :: bool
  ended :: bool

definition DOWNLOAD_TOO_SLOW_BODY :: nat where
  "DOWNLOAD_TOO_SLOW_BODY = 52"

definition downloadTimeout_callback ::
  "int \<Rightarrow> download \<Rightarrow> response \<Rightarrow> guard \<Rightarrow> download \<times> response \<times> guard" where
  "downloadTimeout_callback now d res g =
     (let tracker = trackers g (trackerRef d) in
        if js_lt (transferRate tracker) DOWNLOAD_MIN_TRANSFER_RATE
        then (let g1 = g\<lparr>trackers := (trackers g)
                           (trackerRef d := tracker\<lparr>dl_isBlocked := True,
                                                     dl_blockUntil := now + DOWNLOAD_BLOCK_DURATION\<rparr>)\<rparr>;
                  (d2, res2, g2) =
                    (if \<not> headersSent res
                     then (let (d', g') = res_end (Buffer DOWNLOAD_TOO_SLOW_BODY) d g1
                           in (d', res\<lparr>statusCode := 408, headersSent := True, ended := True\<rparr>, g'))
                     else (d, res, g1));
                  (d3, g3) = res_end NoChunk d2 g2
              in (d3, res2\<lparr>ended := True\<rparr>, g3))
        else (d, res, g))"

text \<open>
  The timer of \<open>setTimeout\<close>: its callback runs once, at a time not before the deadline,
  unless \<open>clearTimeout\<close> came first. \<open>clear_downloadTimeout\<close> is the handler that
  \<open>setupDownloadMonitoring\<close> registers for both \<open>finish\<close> and \<open>close\<close>.
\<close>

definition fire_downloadTimeout ::
  "int \<Rightarrow> download \<Rightarrow> response \<Rightarrow> guard \<Rightarrow> download \<times> response \<times> guard" where
  "fire_downloadTimeout now d res g =
     (case downloadTimeout d of
        None \<Rightarrow> (d, res, g)
      | Some deadline \<Rightarrow>
          if now < deadline then (d, res, g)
          else (let (d', res', g') = downloadTimeout_callback now d res g
                in (d'\<lparr>downloadTimeout := None\<rparr>, res', g')))"

definition clear_downloadTimeout :: "download \<Rightarrow> download" where
  "clear_downloadTimeout d = d\<lparr>downloadTimeout := None\<rparr>"

text \<open>
  \<open>middleware\<close> answers a request with a JSON reply (\<open>Reply status retryAfter\<close>, and
  \<open>next()\<close> is not called) or calls \<open>next()\<close> after installing its handlers on the
  response: \<open>NextConnection\<close> for a tracked connection, with the timer \<open>connectionTimeout\<close>
  of \<open>setupConnectionTimeouts\<close> (\<open>Some deadline\<close> while it is armed), and \<open>NextDownload\<close> for
  a tracked download, with the closure of \<open>setupDownloadMonitoring\<close>.
\<close>

datatype outcome =
    Reply int int
  | NextConnection string "int option"
  | NextDownload string "download option"

definition handleDownloadProtection :: "string \<Rightarrow> int \<Rightarrow> guard \<Rightarrow> outcome \<times> guard" where
  "handleDownloadProtection clientIp now g =
     (let (blocked, g1) = isDownloadBlocked clientIp now g in
        if blocked
        then (Reply 429 (retryAfter (getDownloadBlockTime clientIp g1) now), g1)
        else (let g2 = addDownload clientIp now g1
              in (NextDownload clientIp (setupDownloadMonitoring clientIp now g2), g2)))"

text \<open>
  A request as the server reads it. \<open>req.ip\<close>, \<open>remoteAddress\<close> and the two headers are
  the empty string when they are undefined (all are falsy then). \<open>bodyAccepted\<close> tells
  whether the body parsers (\<open>express.json\<close>, \<open>express.urlencoded\<close>) accept the body.
\<close>

record request =
  req_ip :: string
  remoteAddress :: string
  req_path :: string
  req_method :: string
  userAgent :: string
  acceptHeader :: string
  bodyAccepted :: bool

definition clientIp_of :: "request \<Rightarrow> string" where
  "clientIp_of req =
     (if req_ip req \<noteq> [] then req_ip req
      else if remoteAddress req \<noteq> [] then remoteAddress req
      else ''unknown'')"

text \<open>
  The test \<open>req.path.startsWith('/snapshots/') && req.method === 'GET'\<close>, which the
  middleware and the rate limiter's \<open>skip\<close> option both make.
\<close>

definition isSnapshotsGet :: "request \<Rightarrow> bool" where
  "isSnapshotsGet req = (prefix ''/snapshots/'' (req_path req) \<and> req_method req = ''GET'')"

definition middleware :: "request \<Rightarrow> int \<Rightarrow> guard \<Rightarrow> outcome \<times> guard" where
  "middleware req now g =
     (let clientIp = clientIp_of req in
        if isSnapshotsGet req
        then handleDownloadProtection clientIp now g
        else (let (blocked, g1) = isIpBlocked clientIp now g in
                if blocked
                then (Reply 429 (retryAfter (getBlockTime clientIp g1) now), g1)
                else (NextConnection clientIp (Some (now + CONNECTION_TIMEOUT)),
                      addConnection clientIp now g1)))"

text \<open>The guard after the middleware has run on a request.\<close>

definition serve :: "request \<Rightarrow> int \<Rightarrow> guard \<Rightarrow> guard" where
  "serve req now g = snd (middleware req now g)"

text \<open>
  The handlers that \<open>middleware\<close> and \<open>handleDownloadProtection\<close> register on the
  response. The same handler is registered for \<open>finish\<close> and for \<open>close\<close>.
\<close>

definition connection_finish :: "string \<Rightarrow> int \<Rightarrow> guard \<Rightarrow> guard" where
  "connection_finish clientIp now g = removeConnection clientIp now g"

definition connection_close :: "string \<Rightarrow> int \<Rightarrow> guard \<Rightarrow> guard" where
  "connection_close clientIp now g = removeConnection clientIp now g"

definition download_finish ::
  "string \<Rightarrow> int \<Rightarrow> download option \<Rightarrow> guard \<Rightarrow> download option \<times> guard" where
  "download_finish clientIp now d g =
     (map_option clear_downloadTimeout d, removeDownload clientIp now g)"

definition download_close ::
  "string \<Rightarrow> int \<Rightarrow> download option \<Rightarrow> guard \<Rightarrow> download option \<times> guard" where
  "download_close clientIp now d g =
     (map_option clear_downloadTimeout d, removeDownload clientIp now g)"

section \<open>The reaper and the teardown\<close>

text \<open>
  \<open>cleanupExpiredConnections\<close> collects the keys of the expired entries of each map and
  then deletes them; what is left is each map without its expired entries.
\<close>

definition connectionExpired :: "int \<Rightarrow> ConnectionTracker \<Rightarrow> bool" where
  "connectionExpired now tracker =
     (let isExpired = (600000 < now - lastActivity tracker \<and> connections tracker = 0);
          isBlockExpired = (isBlocked tracker \<and> blockUntil tracker \<le> now)
      in isExpired \<or> isBlockExpired)"

definition downloadExpired :: "int \<Rightarrow> DownloadTracker \<Rightarrow> bool" where
  "downloadExpired now tracker =
     (let isExpired = (1800000 < now - dl_lastActivity tracker \<and> activeDownloads tracker = 0);
          isBlockExpired = (dl_isBlocked tracker \<and> dl_blockUntil tracker \<le> now)
      in isExpired \<or> isBlockExpired)"

definition cleanupExpiredConnections :: "int \<Rightarrow> guard \<Rightarrow> guard" where
  "cleanupExpiredConnections now g =
     g\<lparr>connectionMap :=
         (\<lambda>clientIp. case connectionMap g clientIp of
                       None \<Rightarrow> None
                     | Some tracker \<Rightarrow>
                         if connectionExpired now tracker then None else Some tracker),
       downloadMap :=
         (\<lambda>clientIp. case downloadMap g clientIp of
                       None \<Rightarrow> None
                     | Some a \<Rightarrow>
                         if downloadExpired now (trackers g a) then None else Some a)\<rparr>"

definition destroy :: "guard \<Rightarrow> guard" where
  "destroy g = g\<lparr>cleanupInterval := False, connectionMap := Map.empty,
                  downloadMap := Map.empty\<rparr>"

text \<open>The state after the class is loaded: empty maps, the interval timer running.\<close>

definition initialGuard :: guard where
  "initialGuard =
     \<lparr>connectionMap = Map.empty, downloadMap = Map.empty,
      trackers = (\<lambda>a. newDownloadTracker [] 0), allocated = 0, cleanupInterval = True\<rparr>"

section \<open>Calls on the guard, in any order\<close>

text \<open>
  Every function of the class that changes its static state, and the closures it installs,
  as one call each. JavaScript runs each of them to completion, so however the requests of
  the clients interleave, what the guard sees is a sequence of whole calls. A run is any
  finite sequence of such calls from the initial state; the closures may be called with any
  captured values.
\<close>

datatype call =
    IsIpBlocked string int
  | AddConnection string int
  | RemoveConnection string int
  | RecordTimeout string int
  | IsDownloadBlocked string int
  | AddDownload string int
  | RemoveDownload string int
  | ResWrite chunk int download
  | ResEnd chunk download
  | DownloadTimeout int download response
  | CleanupExpiredConnections int
  | Destroy

fun exec :: "call \<Rightarrow> guard \<Rightarrow> guard" where
  "exec (IsIpBlocked clientIp now) g = snd (isIpBlocked clientIp now g)"
| "exec (AddConnection clientIp now) g = addConnection clientIp now g"
| "exec (RemoveConnection clientIp now) g = removeConnection clientIp now g"
| "exec (RecordTimeout clientIp now) g = recordTimeout clientIp now g"
| "exec (IsDownloadBlocked clientIp now) g = snd (isDownloadBlocked clientIp now g)"
| "exec (AddDownload clientIp now) g = addDownload clientIp now g"
| "exec (RemoveDownload clientIp now) g = removeDownload clientIp now g"
| "exec (ResWrite c now d) g = snd (res_write c now d g)"
| "exec (ResEnd c d) g = snd (res_end c d g)"
| "exec (DownloadTimeout now d res) g = snd (snd (downloadTimeout_callback now d res g))"
| "exec (CleanupExpiredConnections now) g = cleanupExpiredConnections now g"
| "exec Destroy g = destroy g"

section \<open>The rate limiter's options (SECURITY_CONFIG.RATE_LIMIT)\<close>

text \<open>
  \<open>skip\<close>, \<open>keyGenerator\<close> and \<open>max\<close> are the options of the repository. The limiter
  itself belongs to the library express-rate-limit; \<open>rateLimiter\<close> is its behaviour within
  one window: a request for which \<open>skip\<close> holds is passed on at once, any other request
  adds one to the hits of its key and is passed on unless the hits then exceed \<open>max\<close>.
  The result tells whether \<open>next()\<close> was called.
\<close>

definition RATE_LIMIT_max :: nat where
  "RATE_LIMIT_max = 200"

definition RATE_LIMIT_keyGenerator :: "request \<Rightarrow> string" where
  "RATE_LIMIT_keyGenerator req = req_ip req"

definition RATE_LIMIT_skip :: "request \<Rightarrow> bool" where
  "RATE_LIMIT_skip req = (prefix ''/snapshots/'' (req_path req) \<and> req_method req = ''GET'')"

definition rateLimiter :: "request \<Rightarrow> (string \<Rightarrow> nat) \<Rightarrow> bool \<times> (string \<Rightarrow> nat)" where
  "rateLimiter req hits =
     (if RATE_LIMIT_skip req then (True, hits)
      else (let key = RATE_LIMIT_keyGenerator req;
                totalHits = hits key + 1
            in (totalHits \<le> RATE_LIMIT_max, hits(key := totalHits))))"

section \<open>The server (BackupServer)\<close>

text \<open>
  The middleware that \<open>setupMiddleware\<close> can install, in the order of the source. The line
  that installs \<open>SlowLorisProtection.middleware()\<close> is commented out, so \<open>setupMiddleware\<close>
  leaves it out.
\<close>

datatype middleware_id =
    Helmet
  | SlowLorisMiddleware
  | Morgan
  | RateLimit
  | JsonParser
  | UrlencodedParser
  | RequestValidator

definition setupMiddleware :: "middleware_id list" where
  "setupMiddleware = [Helmet, Morgan, RateLimit, JsonParser, UrlencodedParser, RequestValidator]"

text \<open>The list with that line active, for comparison.\<close>

definition setupMiddlewareWithGuard :: "middleware_id list" where
  "setupMiddlewareWithGuard =
     [Helmet, SlowLorisMiddleware, Morgan, RateLimit, JsonParser, UrlencodedParser,
      RequestValidator]"

definition isRequestValid :: "request \<Rightarrow> bool" where
  "isRequestValid req =
     (if userAgent req = [] \<or> 500 < length (userAgent req) then False
      else if acceptHeader req \<noteq> [] \<and> 1000 < length (acceptHeader req) then False
      else True)"

text \<open>
  A response that passed the guard's middleware, with the handlers installed on it.
  The server's state: the guard, the tracked responses in the order of their admission, the
  limiter's hits, and the shutdown flag and exit code of \<open>start\<close>.
\<close>

record tracked =
  handlers :: outcome
  res :: response

record server =
  guardState :: guard
  installed :: "tracked list"
  limiterHits :: "string \<Rightarrow> nat"
  isShuttingDown :: bool
  exited :: "int option"

definition freshResponse :: response where
  "freshResponse = \<lparr>statusCode = 200, headersSent = False, ended = False\<rparr>"

text \<open>
  One middleware on one request: the result tells whether it called \<open>next()\<close>.
  Only the guard's middleware reads or writes the guard (its maps are private).
\<close>

fun applyMiddleware :: "middleware_id \<Rightarrow> request \<Rightarrow> int \<Rightarrow> server \<Rightarrow> bool \<times> server" where
  "applyMiddleware SlowLorisMiddleware req now s =
     (let (out, g') = middleware req now (guardState s) in
        case out of
          Reply status retry \<Rightarrow> (False, s\<lparr>guardState := g'\<rparr>)
        | _ \<Rightarrow> (True, s\<lparr>guardState := g',
                        installed := installed s @ [\<lparr>handlers = out, res = freshResponse\<rparr>]\<rparr>))"
| "applyMiddleware RateLimit req now s =
     (let (passed, hits') = rateLimiter req (limiterHits s)
      in (passed, s\<lparr>limiterHits := hits'\<rparr>))"
| "applyMiddleware JsonParser req now s = (bodyAccepted req, s)"
| "applyMiddleware UrlencodedParser req now s = (bodyAccepted req, s)"
| "applyMiddleware RequestValidator req now s = (isRequestValid req, s)"
| "applyMiddleware Helmet req now s = (True, s)"
| "applyMiddleware Morgan req now s = (True, s)"

fun runPipeline :: "middleware_id list \<Rightarrow> request \<Rightarrow> int \<Rightarrow> server \<Rightarrow> server" where
  "runPipeline [] req now s = s"
| "runPipeline (m # ms) req now s =
     (let (continue, s') = applyMiddleware m req now s
      in if continue then runPipeline ms req now s' else s')"

text \<open>
  \<open>gracefulShutdown\<close>: a second signal exits with code 1; the first sets the flag and calls
  \<open>SlowLorisProtection.destroy()\<close> (closing the server and the 5-second exit timer are the
  events \<open>ServerClosed\<close> and \<open>ShutdownTimer\<close>).
\<close>

definition gracefulShutdown :: "server \<Rightarrow> server" where
  "gracefulShutdown s =
     (if isShuttingDown s then s\<lparr>exited := Some 1\<rparr>
      else s\<lparr>isShuttingDown := True, guardState := destroy (guardState s)\<rparr>)"

text \<open>
  What can happen to the running server. The events on a tracked response name it by its
  position in \<open>installed\<close>; they do nothing for a position that is not there.
\<close>

datatype event =
    HttpRequest request int
  | ResponseFinish nat int
  | ResponseClose nat int
  | ResponseWrite nat chunk int
  | ResponseEnd nat chunk
  | WatchdogDue nat int
  | TimeoutFires nat int
  | ConnectionTimerDue nat int
  | ReaperTick int
  | Signal
  | ServerClosed
  | ShutdownTimer

definition onTracked :: "nat \<Rightarrow> (tracked \<Rightarrow> guard \<Rightarrow> tracked \<times> guard) \<Rightarrow> server \<Rightarrow> server" where
  "onTracked k f s =
     (if k < length (installed s)
      then (let (t', g') = f (installed s ! k) (guardState s)
            in s\<lparr>installed := (installed s)[k := t'], guardState := g'\<rparr>)
      else s)"

definition finishTracked :: "int \<Rightarrow> tracked \<Rightarrow> guard \<Rightarrow> tracked \<times> guard" where
  "finishTracked now t g =
     (case handlers t of
        NextConnection clientIp timer \<Rightarrow>
          (t\<lparr>handlers := NextConnection clientIp None\<rparr>, connection_finish clientIp now g)
      | NextDownload clientIp d \<Rightarrow>
          (let (d', g') = download_finish clientIp now d g
           in (t\<lparr>handlers := NextDownload clientIp d'\<rparr>, g'))
      | Reply status retry \<Rightarrow> (t, g))"

definition closeTracked :: "int \<Rightarrow> tracked \<Rightarrow> guard \<Rightarrow> tracked \<times> guard" where
  "closeTracked now t g =
     (case handlers t of
        NextConnection clientIp timer \<Rightarrow>
          (t\<lparr>handlers := NextConnection clientIp None\<rparr>, connection_close clientIp now g)
      | NextDownload clientIp d \<Rightarrow>
          (let (d', g') = download_close clientIp now d g
           in (t\<lparr>handlers := NextDownload clientIp d'\<rparr>, g'))
      | Reply status retry \<Rightarrow> (t, g))"

text \<open>
  \<open>res.write\<close> and \<open>res.end\<close> on a tracked response. Node refuses a \<open>res.write\<close> without a
  chunk (a \<open>TypeError\<close>), after the wrapper has found nothing to count.
\<close>

definition writeTracked :: "chunk \<Rightarrow> int \<Rightarrow> tracked \<Rightarrow> guard \<Rightarrow> tracked \<times> guard" where
  "writeTracked c now t g =
     (case c of
        NoChunk \<Rightarrow> (t, g)
      | _ \<Rightarrow>
          (let t1 = t\<lparr>res := (res t)\<lparr>headersSent := True\<rparr>\<rparr> in
             case handlers t of
               NextDownload clientIp (Some d) \<Rightarrow>
                 (let (d', g') = res_write c now d g
                  in (t1\<lparr>handlers := NextDownload clientIp (Some d')\<rparr>, g'))
             | _ \<Rightarrow> (t1, g)))"

definition endTracked :: "chunk \<Rightarrow> tracked \<Rightarrow> guard \<Rightarrow> tracked \<times> guard" where
  "endTracked c t g =
     (let t1 = t\<lparr>res := (res t)\<lparr>headersSent := True, ended := True\<rparr>\<rparr> in
        case handlers t of
          NextDownload clientIp (Some d) \<Rightarrow>
            (let (d', g') = res_end c d g
             in (t1\<lparr>handlers := NextDownload clientIp (Some d')\<rparr>, g'))
        | _ \<Rightarrow> (t1, g))"

definition watchdogTracked :: "int \<Rightarrow> tracked \<Rightarrow> guard \<Rightarrow> tracked \<times> guard" where
  "watchdogTracked now t g =
     (case handlers t of
        NextDownload clientIp (Some d) \<Rightarrow>
          (let (d', res', g') = fire_downloadTimeout now d (res t) g
           in (t\<lparr>handlers := NextDownload clientIp (Some d'), res := res'\<rparr>, g'))
      | _ \<Rightarrow> (t, g))"

text \<open>
  The callbacks of \<open>setupConnectionTimeouts\<close>. The request and the response timeout are
  socket timeouts of Node and may fire whenever the socket has been idle; the connection
  timeout is a \<open>setTimeout\<close> timer, which calls \<open>res.end()\<close> as well.
\<close>

definition timeoutReply :: "response \<Rightarrow> response" where
  "timeoutReply r =
     (if headersSent r then r
      else r\<lparr>statusCode := 408, headersSent := True, ended := True\<rparr>)"

definition timeoutTracked :: "int \<Rightarrow> tracked \<Rightarrow> guard \<Rightarrow> tracked \<times> guard" where
  "timeoutTracked now t g =
     (case handlers t of
        NextConnection clientIp timer \<Rightarrow>
          (t\<lparr>res := timeoutReply (res t)\<rparr>, recordTimeout clientIp now g)
      | _ \<Rightarrow> (t, g))"

definition connectionTimerTracked :: "int \<Rightarrow> tracked \<Rightarrow> guard \<Rightarrow> tracked \<times> guard" where
  "connectionTimerTracked now t g =
     (case handlers t of
        NextConnection clientIp (Some deadline) \<Rightarrow>
          if now < deadline then (t, g)
          else (t\<lparr>handlers := NextConnection clientIp None,
                  res := (timeoutReply (res t))\<lparr>ended := True\<rparr>\<rparr>,
                recordTimeout clientIp now g)
      | _ \<Rightarrow> (t, g))"

fun step :: "middleware_id list \<Rightarrow> event \<Rightarrow> server \<Rightarrow> server" where
  "step mws (HttpRequest req now) s = runPipeline mws req now s"
| "step mws (ResponseFinish k now) s = onTracked k (finishTracked now) s"
| "step mws (ResponseClose k now) s = onTracked k (closeTracked now) s"
| "step mws (ResponseWrite k c now) s = onTracked k (writeTracked c now) s"
| "step mws (ResponseEnd k c) s = onTracked k (endTracked c) s"
| "step mws (WatchdogDue k now) s = onTracked k (watchdogTracked now) s"
| "step mws (TimeoutFires k now) s = onTracked k (timeoutTracked now) s"
| "step mws (ConnectionTimerDue k now) s = onTracked k (connectionTimerTracked now) s"
| "step mws (ReaperTick now) s =
     (if cleanupInterval (guardState s)
      then s\<lparr>guardState := cleanupExpiredConnections now (guardState s)\<rparr>
      else s)"
| "step mws Signal s = gracefulShutdown s"
| "step mws ServerClosed s = (if isShuttingDown s then s\<lparr>exited := Some 0\<rparr> else s)"
| "step mws ShutdownTimer s = (if isShuttingDown s then s\<lparr>exited := Some 1\<rparr> else s)"

text \<open>A run of the server: events are handled in order until the process has exited.\<close>

fun run :: "middleware_id list \<Rightarrow> event list \<Rightarrow> server \<Rightarrow> server" where
  "run mws [] s = s"
| "run mws (e # es) s =
     (case exited s of
        Some code \<Rightarrow> s
      | None \<Rightarrow> run mws es (step mws e s))"

text \<open>
  The process after \<open>new BackupServer(...)\<close> and \<open>start()\<close>: the class is loaded (its
  static block has started the interval timer), nothing is tracked, no hits are counted.
\<close>

definition startServer :: server where
  "startServer =
     \<lparr>guardState = initialGuard, installed = [], limiterHits = (\<lambda>key. 0),
      isShuttingDown = False, exited = None\<rparr>"

text \<open>
  A server on which the guard tracks nothing: no handlers are installed, both maps are
  empty, the interval timer runs exactly until the shutdown has begun, and the process has
  not exited before the shutdown began.
\<close>

definition untracked :: "server \<Rightarrow> bool" where
  "untracked s =
     (installed s = [] \<and> connectionMap (guardState s) = Map.empty \<and>
      downloadMap (guardState s) = Map.empty \<and>
      cleanupInterval (guardState s) = (\<not> isShuttingDown s) \<and>
      (exited s \<noteq> None \<longrightarrow> isShuttingDown s))"

text \<open>
  Concrete requests for the examples: a \<open>GET /health\<close> (not a download) and a
  \<open>GET /snapshots/<file>\<close> from a given address.
\<close>

definition healthRequest :: "string \<Rightarrow> request" where
  "healthRequest clientIp =
     \<lparr>req_ip = clientIp, remoteAddress = clientIp, req_path = ''/health'', req_method = ''GET'',
      userAgent = ''curl/8.0'', acceptHeader = ''*/*'', bodyAccepted = True\<rparr>"

definition snapshotRequest :: "string \<Rightarrow> request" where
  "snapshotRequest clientIp =
     \<lparr>req_ip = clientIp, remoteAddress = clientIp,
      req_path = ''/snapshots/snapshot_1_2024-01-06_12-30-45.gz'', req_method = ''GET'',
      userAgent = ''curl/8.0'', acceptHeader = ''*/*'', bodyAccepted = True\<rparr>"

text \<open>
  The listing is the route \<open>app.get('/snapshots', ...)\<close> (documented as \<open>GET /snapshots\<close>).
  With the default routing of Express, which is not strict about a trailing slash, the route
  serves the path \<open>/snapshots\<close> and the path \<open>/snapshots/\<close> alike.
\<close>

definition listingRequest :: "string \<Rightarrow> request" where
  "listingRequest clientIp =
     \<lparr>req_ip = clientIp, remoteAddress = clientIp, req_path = ''/snapshots'', req_method = ''GET'',
      userAgent = ''curl/8.0'', acceptHeader = ''*/*'', bodyAccepted = True\<rparr>"

definition listingSlashRequest :: "string \<Rightarrow> request" where
  "listingSlashRequest clientIp =
     \<lparr>req_ip = clientIp, remoteAddress = clientIp, req_path = ''/snapshots/'', req_method = ''GET'',
      userAgent = ''curl/8.0'', acceptHeader = ''*/*'', bodyAccepted = True\<rparr>"

text \<open>A header lookup is the route \<open>GET /snapshots/<file>.header.json\<close>.\<close>

definition headerRequest :: "string \<Rightarrow> request" where
  "headerRequest clientIp =
     \<lparr>req_ip = clientIp, remoteAddress = clientIp,
      req_path = ''/snapshots/snapshot_1_2024-01-06_12-30-45.header.json'', req_method = ''GET'',
      userAgent = ''curl/8.0'', acceptHeader = ''*/*'', bodyAccepted = True\<rparr>"

section \<open>The specification's wording\<close>

text \<open>
  The threshold and the blocking test as the specification words them, with one
  \<open>hardCap\<close> used both in the threshold and in the disjunction. This definition follows the
  specification, not the code; it is what the code is compared with.
\<close>

definition spec_adaptiveThreshold :: "int \<Rightarrow> int \<Rightarrow> int \<Rightarrow> int \<Rightarrow> int" where
  "spec_adaptiveThreshold hardCap baseline rampWindow elapsed =
     min hardCap (max baseline (elapsed div rampWindow))"

definition spec_shouldBlock ::
  "int \<Rightarrow> int \<Rightarrow> int \<Rightarrow> int \<Rightarrow> rat \<Rightarrow> ConnectionTracker \<Rightarrow> int \<Rightarrow> bool" where
  "spec_shouldBlock hardCap baseline rampWindow gracePeriod ratioThreshold tracker now =
     (let elapsed = now - firstConnection tracker in
        spec_adaptiveThreshold hardCap baseline rampWindow elapsed < connections tracker \<and>
        gracePeriod < elapsed \<and>
        (ratioThreshold < timeoutRatio tracker \<or> hardCap < connections tracker))"

text \<open>
  The sampling rule as the specification words it: given the bytes written and the
  milliseconds elapsed since the last sample, the rate is recomputed as the bytes of that
  window per second of that window when at least one second has elapsed, and kept
  otherwise. This definition follows the specification, not the code.
\<close>

definition spec_sample :: "jsnum \<Rightarrow> int \<Rightarrow> int \<Rightarrow> jsnum" where
  "spec_sample rate bytesWrittenSinceLastSample elapsedSinceLastSample =
     (if 1000 \<le> elapsedSinceLastSample
      then js_div (rat_of_int bytesWrittenSinceLastSample)
                  (rat_of_int elapsedSinceLastSample / 1000)
      else rate)"

section \<open>Properties\<close>

lemma timeoutRatio_half:
  "(1 / 2 < timeoutRatio t) = (max (requestCount t) 1 < 2 * timeoutCount t)"
proof -
  have pos: "(0::rat) < rat_of_int (max (requestCount t) 1)" by simp
  have "(1 / 2 < timeoutRatio t) =
        (rat_of_int (max (requestCount t) 1) < rat_of_int (2 * timeoutCount t))"
    unfolding timeoutRatio_def using pos by (simp add: field_simps)
  also have "\<dots> = (max (requestCount t) 1 < 2 * timeoutCount t)"
    by (simp only: of_int_less_iff)
  finally show ?thesis .
qed

subsection \<open>Registering a connection\<close>

lemma addConnection_lookup:
  "connectionMap (addConnection clientIp now g) clientIp =
     Some (let t0 = (case connectionMap g clientIp of
                       None \<Rightarrow> newConnectionTracker clientIp now | Some t \<Rightarrow> t);
               t1 = t0\<lparr>connections := connections t0 + 1, lastActivity := now,
                       requestCount := requestCount t0 + 1\<rparr>
           in if shouldBlock t1 now
              then t1\<lparr>isBlocked := True, blockUntil := now + SLOW_LORIS_BLOCK_DURATION\<rparr>
              else t1)"
  by (simp add: addConnection_def Let_def)

lemma shouldBlock_numeric:
  "shouldBlock t now =
     (min 100 (max 20 ((now - firstConnection t) div 5000)) < connections t \<and>
      30000 < now - firstConnection t \<and>
      (max (requestCount t) 1 < 2 * timeoutCount t \<or> 50 < connections t))"
  unfolding shouldBlock_def Let_def adaptiveThreshold_def timeoutRatio_half
      MAX_CONCURRENT_CONNECTIONS_def MAX_SLOW_CONNECTIONS_def SLOW_LORIS_GRACE_PERIOD_def
  by (rule refl)

lemma shouldBlock_grace:
  "now - firstConnection t \<le> 30000 \<Longrightarrow> \<not> shouldBlock t now"
  by (simp add: shouldBlock_numeric)

lemma isIpBlocked_fresh:
  "connectionMap g clientIp = None \<Longrightarrow> isIpBlocked clientIp now g = (False, g)"
  by (simp add: isIpBlocked_def)

lemma isIpBlocked_unblocked:
  "connectionMap g clientIp = Some t \<Longrightarrow> \<not> isBlocked t \<Longrightarrow>
   isIpBlocked clientIp now g = (False, g)"
  by (simp add: isIpBlocked_def)

lemma isIpBlocked_blocked:
  "connectionMap g clientIp = Some t \<Longrightarrow> isBlocked t \<Longrightarrow> now < blockUntil t \<Longrightarrow>
   isIpBlocked clientIp now g = (True, g)"
  by (simp add: isIpBlocked_def)

lemma middleware_connection:
  assumes "\<not> isSnapshotsGet req"
  shows "middleware req now g =
     (let clientIp = clientIp_of req; (blocked, g1) = isIpBlocked clientIp now g in
        if blocked then (Reply 429 (retryAfter (getBlockTime clientIp g1) now), g1)
        else (NextConnection clientIp (Some (now + CONNECTION_TIMEOUT)),
              addConnection clientIp now g1))"
  using assms unfolding middleware_def Let_def by simp

lemma addConnection_first:
  assumes "connectionMap g clientIp = None"
  shows "connectionMap (addConnection clientIp now g) clientIp =
     Some ((newConnectionTracker clientIp now)\<lparr>connections := 1, requestCount := 1\<rparr>)"
proof -
  have "\<not> shouldBlock ((newConnectionTracker clientIp now)
          \<lparr>connections := connections (newConnectionTracker clientIp now) + 1,
            lastActivity := now,
            requestCount := requestCount (newConnectionTracker clientIp now) + 1\<rparr>) now"
    by (rule shouldBlock_grace) (simp add: newConnectionTracker_def)
  then show ?thesis
    using assms by (simp add: addConnection_def Let_def newConnectionTracker_def)
qed

lemma addConnection_grace:
  assumes "connectionMap g clientIp = Some t" and "now - firstConnection t \<le> 30000"
  shows "connectionMap (addConnection clientIp now g) clientIp =
     Some (t\<lparr>connections := connections t + 1, lastActivity := now,
             requestCount := requestCount t + 1\<rparr>)"
proof -
  have "\<not> shouldBlock (t\<lparr>connections := connections t + 1, lastActivity := now,
             requestCount := requestCount t + 1\<rparr>) now"
    by (rule shouldBlock_grace) (simp add: assms)
  then show ?thesis
    using assms by (simp add: addConnection_def Let_def)
qed

lemma serve_grace:
  assumes nd: "\<not> isSnapshotsGet req"
    and t: "connectionMap g (clientIp_of req) = Some t" and nb: "\<not> isBlocked t"
    and gr: "now - firstConnection t \<le> 30000"
  shows "middleware req now g =
           (NextConnection (clientIp_of req) (Some (now + CONNECTION_TIMEOUT)), serve req now g)"
    and "connectionMap (serve req now g) (clientIp_of req) =
     Some (t\<lparr>connections := connections t + 1, lastActivity := now,
             requestCount := requestCount t + 1\<rparr>)"
  using addConnection_grace[OF t gr]
  by (simp_all add: serve_def middleware_connection[OF nd] isIpBlocked_unblocked[OF t nb] Let_def)

lemma serve_first:
  assumes nd: "\<not> isSnapshotsGet req"
    and t: "connectionMap g (clientIp_of req) = None"
  shows "middleware req now g =
           (NextConnection (clientIp_of req) (Some (now + CONNECTION_TIMEOUT)), serve req now g)"
    and "connectionMap (serve req now g) (clientIp_of req) =
     Some ((newConnectionTracker (clientIp_of req) now)\<lparr>connections := 1, requestCount := 1\<rparr>)"
  using addConnection_first[OF t]
  by (simp_all add: serve_def middleware_connection[OF nd] isIpBlocked_fresh[OF t] Let_def)

lemma fold_serve_grace:
  assumes nd: "\<not> isSnapshotsGet req"
  shows "connectionMap g (clientIp_of req) = Some t \<Longrightarrow> \<not> isBlocked t \<Longrightarrow>
     \<forall>x\<in>set ts. x - firstConnection t \<le> 30000 \<Longrightarrow>
     connectionMap (fold (serve req) ts g) (clientIp_of req) =
       Some (t\<lparr>connections := connections t + int (length ts),
               lastActivity := last (lastActivity t # ts),
               requestCount := requestCount t + int (length ts)\<rparr>)"
proof (induction ts arbitrary: g t)
  case Nil
  then show ?case by simp
next
  case (Cons x xs)
  let ?t' = "t\<lparr>connections := connections t + 1, lastActivity := x,
             requestCount := requestCount t + 1\<rparr>"
  have gr: "x - firstConnection t \<le> 30000" using Cons.prems(3) by simp
  have step: "connectionMap (serve req x g) (clientIp_of req) = Some ?t'"
    by (rule serve_grace(2)[OF nd Cons.prems(1) Cons.prems(2) gr])
  have "connectionMap (fold (serve req) xs (serve req x g)) (clientIp_of req) =
       Some (?t'\<lparr>connections := connections ?t' + int (length xs),
               lastActivity := last (lastActivity ?t' # xs),
               requestCount := requestCount ?t' + int (length xs)\<rparr>)"
    by (rule Cons.IH[OF step]) (use Cons.prems in simp_all)
  then show ?case by (simp add: algebra_simps)
qed

lemma retryAfter_bounds:
  assumes "now \<le> now'" "now' < now + 600000"
  shows "1 \<le> retryAfter (now + 600000) now'" "retryAfter (now + 600000) now' \<le> 600"
proof -
  have "0 < rat_of_int (now + 600000 - now') / 1000" using assms by simp
  then show "1 \<le> retryAfter (now + 600000) now'"
    unfolding retryAfter_def by (simp add: le_ceiling_iff)
  have "rat_of_int (now + 600000 - now') / 1000 \<le> rat_of_int 600"
  proof -
    have "rat_of_int (now + 600000 - now') \<le> rat_of_int 600000"
      using assms by simp
    then show ?thesis by simp
  qed
  then show "retryAfter (now + 600000) now' \<le> 600"
    unfolding retryAfter_def by (simp only: ceiling_le_iff)
qed

lemma retryAfter_div: "retryAfter blockTime now = - ((now - blockTime) div 1000)"
proof -
  have e: "- (rat_of_int (blockTime - now) / 1000) =
           rat_of_int (now - blockTime) / rat_of_int 1000"
  proof -
    have "rat_of_int (now - blockTime) = - rat_of_int (blockTime - now)"
      by simp
    then show ?thesis
      by (simp only: of_int_numeral minus_divide_left)
  qed
  have "\<lceil>rat_of_int (blockTime - now) / 1000\<rceil> =
        - \<lfloor>rat_of_int (now - blockTime) / rat_of_int 1000\<rfloor>"
    unfolding ceiling_def e ..
  also have "\<dots> = - ((now - blockTime) div 1000)"
    by (simp only: floor_divide_of_int_eq)
  finally show ?thesis
    unfolding retryAfter_def .
qed

lemma retryAfter_full: "retryAfter (now + 600000) now = 600"
  by (simp add: retryAfter_def)

lemma registers_in_grace:
  assumes nd: "\<not> isSnapshotsGet req"
    and fresh: "connectionMap g (clientIp_of req) = None"
    and within: "\<forall>t\<in>set ts. t0 \<le> t \<and> t \<le> t0 + 30000"
  shows "connectionMap (fold (serve req) (t0 # ts) g) (clientIp_of req) =
     Some \<lparr>ip = clientIp_of req, connections = 1 + int (length ts), slowConnections = 0,
           lastActivity = last (t0 # ts), isBlocked = False, blockUntil = 0,
           firstConnection = t0, requestCount = 1 + int (length ts), timeoutCount = 0\<rparr>"
proof -
  let ?t1 = "(newConnectionTracker (clientIp_of req) t0)\<lparr>connections := 1, requestCount := 1\<rparr>"
  have first: "connectionMap (serve req t0 g) (clientIp_of req) = Some ?t1"
    by (rule serve_first(2)[OF nd fresh])
  have "connectionMap (fold (serve req) ts (serve req t0 g)) (clientIp_of req) =
     Some (?t1\<lparr>connections := connections ?t1 + int (length ts),
               lastActivity := last (lastActivity ?t1 # ts),
               requestCount := requestCount ?t1 + int (length ts)\<rparr>)"
    by (rule fold_serve_grace[OF nd first]) (use within in \<open>auto simp add: newConnectionTracker_def\<close>)
  then show ?thesis by (simp add: newConnectionTracker_def)
qed

lemma healthRequest_simps:
  "\<not> isSnapshotsGet (healthRequest ''10.0.0.1'')"
  "clientIp_of (healthRequest ''10.0.0.1'') = ''10.0.0.1''"
  by (simp_all add: healthRequest_def isSnapshotsGet_def clientIp_of_def)

lemma snapshotRequest_simps:
  "isSnapshotsGet (snapshotRequest ''10.0.0.1'')"
  "clientIp_of (snapshotRequest ''10.0.0.1'') = ''10.0.0.1''"
  by (simp_all add: snapshotRequest_def isSnapshotsGet_def clientIp_of_def)

lemma replicate_at_zero:
  "connectionMap (fold (serve (healthRequest ''10.0.0.1'')) (replicate (Suc n) 0) initialGuard)
     ''10.0.0.1'' =
   Some \<lparr>ip = ''10.0.0.1'', connections = 1 + int n, slowConnections = 0,
         lastActivity = 0, isBlocked = False, blockUntil = 0,
         firstConnection = 0, requestCount = 1 + int n, timeoutCount = 0\<rparr>"
proof -
  have fresh: "connectionMap initialGuard (clientIp_of (healthRequest ''10.0.0.1'')) = None"
    by (simp add: initialGuard_def)
  have "\<forall>t\<in>set (replicate n (0::int)). 0 \<le> t \<and> t \<le> 0 + 30000" by simp
  from registers_in_grace[OF healthRequest_simps(1) fresh this]
  show ?thesis by (simp add: healthRequest_simps(2))
qed

text \<open>
  C3 (as amended). On every register the tracker of the client is created if it is missing,
  \<open>connections\<close> and \<open>requestCount\<close> are incremented and \<open>lastActivity\<close> is set; then
  with \<open>elapsed = now - firstConnection\<close> the client is blocked until \<open>now + 600000\<close>
  exactly when \<open>connections > min(100, max(20, floor(elapsed / 5000)))\<close> and
  \<open>elapsed > 30000\<close> and (\<open>timeoutCount / max(requestCount, 1) > 0.5\<close> or
  \<open>connections > 50\<close>); otherwise the blocking fields are left as they were. The cap of the
  threshold (\<open>MAX_CONCURRENT_CONNECTIONS = 100\<close>) and the bound of the disjunction
  (\<open>MAX_SLOW_CONNECTIONS = 50\<close>) are two different constants.
\<close>

theorem addConnection_blocks_iff:
  "connectionMap (addConnection clientIp now g) clientIp =
     Some (let t0 = (case connectionMap g clientIp of
                       None \<Rightarrow> newConnectionTracker clientIp now | Some t \<Rightarrow> t);
               t1 = t0\<lparr>connections := connections t0 + 1, lastActivity := now,
                       requestCount := requestCount t0 + 1\<rparr>;
               elapsed = now - firstConnection t0
           in if min 100 (max 20 (elapsed div 5000)) < connections t1 \<and>
                 30000 < elapsed \<and>
                 (max (requestCount t1) 1 < 2 * timeoutCount t1 \<or> 50 < connections t1)
              then t1\<lparr>isBlocked := True, blockUntil := now + 600000\<rparr>
              else t1)"
proof -
  define t0 where "t0 = (case connectionMap g clientIp of
                       None \<Rightarrow> newConnectionTracker clientIp now | Some t \<Rightarrow> t)"
  define t1 where "t1 = t0\<lparr>connections := connections t0 + 1, lastActivity := now,
                       requestCount := requestCount t0 + 1\<rparr>"
  have fc: "firstConnection t1 = firstConnection t0"
    by (simp add: t1_def)
  have "connectionMap (addConnection clientIp now g) clientIp =
        Some (if shouldBlock t1 now
              then t1\<lparr>isBlocked := True, blockUntil := now + 600000\<rparr> else t1)"
    unfolding addConnection_lookup Let_def t0_def t1_def SLOW_LORIS_BLOCK_DURATION_def
    by (rule refl)
  then have "connectionMap (addConnection clientIp now g) clientIp =
        Some (if min 100 (max 20 ((now - firstConnection t0) div 5000)) < connections t1 \<and>
                 30000 < now - firstConnection t0 \<and>
                 (max (requestCount t1) 1 < 2 * timeoutCount t1 \<or> 50 < connections t1)
              then t1\<lparr>isBlocked := True, blockUntil := now + 600000\<rparr> else t1)"
    unfolding shouldBlock_numeric fc .
  then show ?thesis
    unfolding Let_def t0_def t1_def .
qed

theorem addConnection_blocks_iff_witness:
  "connectionMap (addConnection ''10.0.0.1'' 0 initialGuard) ''10.0.0.1'' =
     Some \<lparr>ip = ''10.0.0.1'', connections = 1, slowConnections = 0, lastActivity = 0,
           isBlocked = False, blockUntil = 0, firstConnection = 0,
           requestCount = 1, timeoutCount = 0\<rparr> \<and>
   connectionMap (addConnection ''10.0.0.1'' 35000
       (fold (serve (healthRequest ''10.0.0.1'')) (replicate 59 0) initialGuard)) ''10.0.0.1'' =
     Some \<lparr>ip = ''10.0.0.1'', connections = 60, slowConnections = 0,
         lastActivity = 35000, isBlocked = True, blockUntil = 635000,
         firstConnection = 0, requestCount = 60, timeoutCount = 0\<rparr>"
proof -
  define G where "G = fold (serve (healthRequest ''10.0.0.1'')) (replicate 59 0) initialGuard"
  have n: "(59::nat) = Suc 58" by simp
  have g59: "connectionMap G ''10.0.0.1'' =
     Some \<lparr>ip = ''10.0.0.1'', connections = 59, slowConnections = 0,
         lastActivity = 0, isBlocked = False, blockUntil = 0,
         firstConnection = 0, requestCount = 59, timeoutCount = 0\<rparr>"
    unfolding G_def n replicate_at_zero by simp
  have g0: "connectionMap initialGuard ''10.0.0.1'' = None"
    by (simp add: initialGuard_def)
  show ?thesis
    unfolding G_def[symmetric]
    using addConnection_blocks_iff[of "''10.0.0.1''" 0 initialGuard]
      addConnection_blocks_iff[of "''10.0.0.1''" 35000 G]
    by (simp add: g0 g59 Let_def newConnectionTracker_def)
qed

text \<open>
  C3, as the claim states it, fails: with one \<open>hardCap = 100\<close> in the threshold and in the
  disjunction, a client with no timeouts is blocked only above 100 connections. A client that
  opened 59 connections at time 0 and opens the 60th at time 35000 is blocked by the code
  (60 exceeds the threshold 20 and \<open>MAX_SLOW_CONNECTIONS = 50\<close>), while the claim's
  condition is false for it.
\<close>

theorem register_hardCap_counterexample:
  "connectionMap (fold (serve (healthRequest ''10.0.0.1'')) (replicate 59 0) initialGuard)
     ''10.0.0.1'' =
     Some \<lparr>ip = ''10.0.0.1'', connections = 59, slowConnections = 0,
         lastActivity = 0, isBlocked = False, blockUntil = 0,
         firstConnection = 0, requestCount = 59, timeoutCount = 0\<rparr> \<and>
   connectionMap (addConnection ''10.0.0.1'' 35000
       (fold (serve (healthRequest ''10.0.0.1'')) (replicate 59 0) initialGuard)) ''10.0.0.1'' =
     Some \<lparr>ip = ''10.0.0.1'', connections = 60, slowConnections = 0,
         lastActivity = 35000, isBlocked = True, blockUntil = 635000,
         firstConnection = 0, requestCount = 60, timeoutCount = 0\<rparr> \<and>
   \<not> spec_shouldBlock 100 20 5000 30000 (1 / 2)
       \<lparr>ip = ''10.0.0.1'', connections = 60, slowConnections = 0,
         lastActivity = 35000, isBlocked = False, blockUntil = 0,
         firstConnection = 0, requestCount = 60, timeoutCount = 0\<rparr> 35000"
proof -
  have n: "(59::nat) = Suc 58" by simp
  have g59: "connectionMap (fold (serve (healthRequest ''10.0.0.1'')) (replicate 59 0) initialGuard)
     ''10.0.0.1'' =
     Some \<lparr>ip = ''10.0.0.1'', connections = 59, slowConnections = 0,
         lastActivity = 0, isBlocked = False, blockUntil = 0,
         firstConnection = 0, requestCount = 59, timeoutCount = 0\<rparr>"
    unfolding n replicate_at_zero by simp
  show ?thesis
    unfolding addConnection_lookup g59
    by (simp add: Let_def shouldBlock_numeric SLOW_LORIS_BLOCK_DURATION_def
        spec_shouldBlock_def spec_adaptiveThreshold_def timeoutRatio_def)
qed

subsection \<open>A flood of connections from a new client\<close>

lemma listingRequest_connection:
  "\<not> isSnapshotsGet (listingRequest ''10.0.0.1'')"
  "clientIp_of (listingRequest ''10.0.0.1'') = ''10.0.0.1''"
  by (simp_all add: listingRequest_def isSnapshotsGet_def clientIp_of_def)

text \<open>
  C2 (as amended). A new client opens 100 non-download connections at times within 30000 ms
  of the first, none of which blocks it, and a 101st more than 30000 ms after the first, all
  still open. The 101st request is admitted and its register sets \<open>isBlocked\<close> with
  \<open>blockUntil = now + 600000\<close>. Every later non-download request \<open>req'\<close> of the client
  before \<open>blockUntil\<close>, whatever its path and method, is answered 429 with
  \<open>retryAfter = ceil((blockUntil - now') / 1000)\<close>, a number between 1 and 600, and the guard
  is left unchanged. A download request \<open>req''\<close> (\<open>GET /snapshots/...\<close>) does not consult
  this block: the middleware hands it to \<open>handleDownloadProtection\<close> before \<open>isIpBlocked\<close>
  is called, so it is decided by the download guard alone.
\<close>

theorem flood_blocked_after_grace:
  assumes nd: "\<not> isSnapshotsGet req"
    and fresh: "connectionMap g (clientIp_of req) = None"
    and len: "length ts = 99"
    and within: "\<forall>t\<in>set ts. t0 \<le> t \<and> t \<le> t0 + 30000"
    and late: "t0 + 30000 < now"
    and again: "now \<le> now'" "now' < now + 600000"
    and nd': "\<not> isSnapshotsGet req'"
    and same: "clientIp_of req' = clientIp_of req"
    and dl: "isSnapshotsGet req''"
  shows "let g100 = fold (serve req) (t0 # ts) g; g101 = serve req now g100 in
     fst (middleware req now g100) = NextConnection (clientIp_of req) (Some (now + 300000)) \<and>
     map_option connections (connectionMap g101 (clientIp_of req)) = Some 101 \<and>
     map_option isBlocked (connectionMap g100 (clientIp_of req)) = Some False \<and>
     map_option isBlocked (connectionMap g101 (clientIp_of req)) = Some True \<and>
     map_option blockUntil (connectionMap g101 (clientIp_of req)) = Some (now + 600000) \<and>
     middleware req' now' g101 = (Reply 429 (retryAfter (now + 600000) now'), g101) \<and>
     1 \<le> retryAfter (now + 600000) now' \<and> retryAfter (now + 600000) now' \<le> 600 \<and>
     retryAfter (now + 600000) now = 600 \<and>
     middleware req'' now' g101 = handleDownloadProtection (clientIp_of req'') now' g101"
proof -
  define c where "c = clientIp_of req"
  define g100 where "g100 = fold (serve req) (t0 # ts) g"
  define g101 where "g101 = serve req now g100"
  define t100 where "t100 = \<lparr>ip = c, connections = 100, slowConnections = 0,
           lastActivity = last (t0 # ts), isBlocked = False, blockUntil = 0,
           firstConnection = t0, requestCount = 100, timeoutCount = 0\<rparr>"
  define t101 where "t101 = t100\<lparr>connections := 101, lastActivity := now, requestCount := 101,
           isBlocked := True, blockUntil := now + 600000\<rparr>"
  have c': "clientIp_of req' = c" using same by (simp add: c_def)
  have l100: "connectionMap g100 c = Some t100"
    using registers_in_grace[OF nd fresh within] len
    by (simp add: g100_def t100_def c_def)
  have nb: "\<not> isBlocked t100" by (simp add: t100_def)
  have admit: "isIpBlocked c now g100 = (False, g100)"
    by (rule isIpBlocked_unblocked[OF l100 nb])
  have mw: "middleware req now g100 =
            (NextConnection c (Some (now + 300000)), addConnection c now g100)"
    by (simp add: middleware_connection[OF nd] Let_def c_def[symmetric] admit
        CONNECTION_TIMEOUT_def)
  have sb: "shouldBlock (t100\<lparr>connections := connections t100 + 1, lastActivity := now,
                       requestCount := requestCount t100 + 1\<rparr>) now"
    using late by (simp add: shouldBlock_numeric t100_def)
  have l101: "connectionMap g101 c = Some t101"
    unfolding g101_def serve_def mw snd_conv addConnection_lookup l100
    using sb by (simp add: Let_def t101_def t100_def SLOW_LORIS_BLOCK_DURATION_def)
  have blocked: "isIpBlocked c now' g101 = (True, g101)"
    by (rule isIpBlocked_blocked[OF l101]) (use again in \<open>simp_all add: t101_def\<close>)
  have deny: "middleware req' now' g101 = (Reply 429 (retryAfter (now + 600000) now'), g101)"
    by (simp add: middleware_connection[OF nd'] Let_def c' blocked
        getBlockTime_def l101 t101_def)
  have down: "middleware req'' now' g101 =
      handleDownloadProtection (clientIp_of req'') now' g101"
    using dl by (simp add: middleware_def Let_def)
  show ?thesis
    unfolding Let_def g100_def[symmetric] g101_def[symmetric] c_def[symmetric]
    using mw l100 l101 deny down retryAfter_bounds[OF again] retryAfter_full[of now]
    by (simp add: t100_def t101_def)
qed

theorem flood_blocked_after_grace_witness:
  "\<not> isSnapshotsGet (healthRequest ''10.0.0.1'') \<and>
   connectionMap initialGuard (clientIp_of (healthRequest ''10.0.0.1'')) = None \<and>
   length (replicate 99 (1000::int)) = 99 \<and>
   \<not> isSnapshotsGet (listingRequest ''10.0.0.1'') \<and>
   clientIp_of (listingRequest ''10.0.0.1'') = clientIp_of (healthRequest ''10.0.0.1'') \<and>
   isSnapshotsGet (snapshotRequest ''10.0.0.1'') \<and>
   (let g100 = fold (serve (healthRequest ''10.0.0.1'')) (0 # replicate 99 1000) initialGuard;
        g101 = serve (healthRequest ''10.0.0.1'') 30001 g100 in
     fst (middleware (healthRequest ''10.0.0.1'') 30001 g100) =
       NextConnection ''10.0.0.1'' (Some 330001) \<and>
     map_option connections (connectionMap g101 ''10.0.0.1'') = Some 101 \<and>
     map_option isBlocked (connectionMap g101 ''10.0.0.1'') = Some True \<and>
     map_option blockUntil (connectionMap g101 ''10.0.0.1'') = Some 630001 \<and>
     middleware (listingRequest ''10.0.0.1'') 30500 g101 = (Reply 429 600, g101) \<and>
     middleware (snapshotRequest ''10.0.0.1'') 30500 g101 =
       handleDownloadProtection ''10.0.0.1'' 30500 g101)"
proof -
  let ?r = "healthRequest ''10.0.0.1''"
  note nd = healthRequest_simps(1)
  note c = healthRequest_simps(2)
  have fresh: "connectionMap initialGuard (clientIp_of ?r) = None" by (simp add: initialGuard_def)
  have len: "length (replicate 99 (1000::int)) = 99" by simp
  have within: "\<forall>t\<in>set (replicate 99 (1000::int)). 0 \<le> t \<and> t \<le> 0 + 30000" by simp
  have same: "clientIp_of (listingRequest ''10.0.0.1'') = clientIp_of ?r"
    by (simp add: listingRequest_connection c)
  have r: "retryAfter (30001 + 600000) 30500 = 600" by (simp add: retryAfter_div)
  show ?thesis
    using flood_blocked_after_grace[OF nd fresh len within _ _ _ listingRequest_connection(1)
        same snapshotRequest_simps(1), of 30001 30500]
      nd fresh r listingRequest_connection(1) same snapshotRequest_simps
    by (simp add: c Let_def)
qed

text \<open>
  On the state of that example the blocked client's download request is admitted: the
  connection block does not reach \<open>GET /snapshots/...\<close>.
\<close>

lemma blocked_client_downloads:
  "fst (middleware (snapshotRequest ''10.0.0.1'') 30500
     (serve (healthRequest ''10.0.0.1'') 30001
        (fold (serve (healthRequest ''10.0.0.1'')) (0 # replicate 99 1000) initialGuard))) =
   NextDownload ''10.0.0.1''
     (Some \<lparr>trackerRef = 0, bytesTransferred = 0, startTime = 30500,
            downloadTimeout = Some 3630500\<rparr>)"
proof -
  define G where "G = serve (healthRequest ''10.0.0.1'') 30001
        (fold (serve (healthRequest ''10.0.0.1'')) (0 # replicate 99 1000) initialGuard)"
  have frame: "downloadMap (serve r now g) = downloadMap g \<and>
               allocated (serve r now g) = allocated g" if "\<not> isSnapshotsGet r" for r now g
    using that
    by (auto simp add: serve_def middleware_def Let_def isIpBlocked_def addConnection_def
        split: option.splits prod.splits if_splits)
  have fold_frame: "downloadMap (fold (serve r) xs g) = downloadMap g \<and>
               allocated (fold (serve r) xs g) = allocated g" if "\<not> isSnapshotsGet r" for r xs g
    using frame[OF that] by (induction xs arbitrary: g) simp_all
  have G: "downloadMap G = Map.empty" "allocated G = 0"
    unfolding G_def
    by (simp_all only: frame[OF healthRequest_simps(1)] fold_frame[OF healthRequest_simps(1)])
       (simp_all add: initialGuard_def)
  show ?thesis
    unfolding G_def[symmetric]
    by (simp add: middleware_def snapshotRequest_simps handleDownloadProtection_def
        isDownloadBlocked_def addDownload_def setupDownloadMonitoring_def Let_def G
        DOWNLOAD_MAX_DOWNLOAD_DURATION_def)
qed

text \<open>
  C2, as the claim states it, fails: when all 101 connections are registered within the
  grace period, the 101st register leaves the client unblocked and its next request is
  admitted.
\<close>

theorem register_in_grace_counterexample:
  "map_option isBlocked
     (connectionMap (fold (serve (healthRequest ''10.0.0.1'')) (replicate 101 0) initialGuard)
        ''10.0.0.1'') = Some False \<and>
   map_option connections
     (connectionMap (fold (serve (healthRequest ''10.0.0.1'')) (replicate 101 0) initialGuard)
        ''10.0.0.1'') = Some 101 \<and>
   fst (middleware (healthRequest ''10.0.0.1'') 1
         (fold (serve (healthRequest ''10.0.0.1'')) (replicate 101 0) initialGuard))
     = NextConnection ''10.0.0.1'' (Some 300001)"
proof -
  let ?r = "healthRequest ''10.0.0.1''"
  define G where "G = fold (serve ?r) (replicate 101 0) initialGuard"
  have n: "(101::nat) = Suc 100" by simp
  have G: "connectionMap G (clientIp_of ?r) =
     Some \<lparr>ip = ''10.0.0.1'', connections = 101, slowConnections = 0,
         lastActivity = 0, isBlocked = False, blockUntil = 0,
         firstConnection = 0, requestCount = 101, timeoutCount = 0\<rparr>"
    unfolding G_def n replicate_at_zero healthRequest_simps(2) by simp
  have "middleware ?r 1 G =
        (NextConnection (clientIp_of ?r) (Some (1 + CONNECTION_TIMEOUT)), serve ?r 1 G)"
    by (rule serve_grace(1)[OF healthRequest_simps(1) G]) simp_all
  then show ?thesis
    using G unfolding G_def[symmetric]
    by (simp add: healthRequest_simps(2) CONNECTION_TIMEOUT_def)
qed

subsection \<open>The reaper\<close>

lemma serve_download:
  "isSnapshotsGet req \<Longrightarrow>
   serve req now g = snd (handleDownloadProtection (clientIp_of req) now g)"
  by (simp add: serve_def middleware_def Let_def)

lemma cleanup_connection:
  "connectionMap (cleanupExpiredConnections now g) c =
     (case connectionMap g c of
        None \<Rightarrow> None
      | Some t \<Rightarrow>
          if (600000 < now - lastActivity t \<and> connections t = 0) \<or>
             (isBlocked t \<and> blockUntil t \<le> now)
          then None else Some t)"
  by (simp add: cleanupExpiredConnections_def connectionExpired_def Let_def split: option.split)

lemma cleanup_download:
  "downloadMap (cleanupExpiredConnections now g) c =
     (case downloadMap g c of
        None \<Rightarrow> None
      | Some a \<Rightarrow>
          if (1800000 < now - dl_lastActivity (trackers g a) \<and> activeDownloads (trackers g a) = 0) \<or>
             (dl_isBlocked (trackers g a) \<and> dl_blockUntil (trackers g a) \<le> now)
          then None else Some a)"
  by (simp add: cleanupExpiredConnections_def downloadExpired_def Let_def split: option.split)

lemma cleanup_frame:
  "trackers (cleanupExpiredConnections now g) = trackers g"
  "allocated (cleanupExpiredConnections now g) = allocated g"
  "cleanupInterval (cleanupExpiredConnections now g) = cleanupInterval g"
  by (simp_all add: cleanupExpiredConnections_def)

lemma six_downloads:
  "downloadMap (fold (serve (snapshotRequest ''10.0.0.1'')) [0, 0, 0, 0, 0, 0] initialGuard)
     ''10.0.0.1'' = Some 0"
  "trackers (fold (serve (snapshotRequest ''10.0.0.1'')) [0, 0, 0, 0, 0, 0] initialGuard) 0 =
     \<lparr>dl_ip = ''10.0.0.1'', activeDownloads = 6, slowDownloads = 0, totalBytesTransferred = 0,
      dl_lastActivity = 0, dl_isBlocked = True, dl_blockUntil = 300000,
      downloadStartTime = 0, lastTransferTime = 0, transferRate = Num 0\<rparr>"
  by (simp_all add: serve_download snapshotRequest_simps handleDownloadProtection_def
      isDownloadBlocked_def addDownload_def initialGuard_def newDownloadTracker_def Let_def
      DOWNLOAD_MAX_SLOW_DOWNLOADS_def DOWNLOAD_BLOCK_DURATION_def)

text \<open>
  C1 (as amended). A tick of the reaper removes an entry of the connection map exactly when
  (its \<open>lastActivity\<close> is more than 600000 ms old and \<open>connections\<close> is 0) or (it is blocked
  and its block has lapsed, \<open>blockUntil \<le> now\<close>); it removes an entry of the download map
  exactly when (its \<open>lastActivity\<close> is more than 1800000 ms old and \<open>activeDownloads\<close> is 0)
  or (it is blocked and its block has lapsed). So an entry with a positive counter is never
  removed for being inactive, however old it is, but it is removed once it is blocked and
  the block has lapsed. Every other entry, and every tracker object, is left as it was.
\<close>

theorem cleanup_removes_iff:
  "(\<forall>t. connectionMap g c = Some t \<longrightarrow>
      connectionMap (cleanupExpiredConnections now g) c =
        (if (600000 < now - lastActivity t \<and> connections t = 0) \<or>
            (isBlocked t \<and> blockUntil t \<le> now)
         then None else Some t)) \<and>
   (\<forall>a. downloadMap g c = Some a \<longrightarrow>
      downloadMap (cleanupExpiredConnections now g) c =
        (if (1800000 < now - dl_lastActivity (trackers g a) \<and>
             activeDownloads (trackers g a) = 0) \<or>
            (dl_isBlocked (trackers g a) \<and> dl_blockUntil (trackers g a) \<le> now)
         then None else Some a)) \<and>
   trackers (cleanupExpiredConnections now g) = trackers g"
  by (simp add: cleanup_connection cleanup_download cleanup_frame)

theorem cleanup_removes_iff_witness:
  "downloadMap (fold (serve (snapshotRequest ''10.0.0.1'')) [0, 0, 0, 0, 0, 0] initialGuard)
     ''10.0.0.1'' = Some 0 \<and>
   downloadMap
     (cleanupExpiredConnections 299999
        (fold (serve (snapshotRequest ''10.0.0.1'')) [0, 0, 0, 0, 0, 0] initialGuard))
     ''10.0.0.1'' = Some 0 \<and>
   connectionMap (serve (healthRequest ''10.0.0.1'') 0 initialGuard) ''10.0.0.1'' =
     Some \<lparr>ip = ''10.0.0.1'', connections = 1, slowConnections = 0, lastActivity = 0,
           isBlocked = False, blockUntil = 0, firstConnection = 0,
           requestCount = 1, timeoutCount = 0\<rparr> \<and>
   connectionMap
     (cleanupExpiredConnections 86400000 (serve (healthRequest ''10.0.0.1'') 0 initialGuard))
     ''10.0.0.1'' =
     Some \<lparr>ip = ''10.0.0.1'', connections = 1, slowConnections = 0, lastActivity = 0,
           isBlocked = False, blockUntil = 0, firstConnection = 0,
           requestCount = 1, timeoutCount = 0\<rparr> \<and>
   connectionMap
     (cleanupExpiredConnections 86400000
        (removeConnection ''10.0.0.1'' 5
           (serve (healthRequest ''10.0.0.1'') 0 initialGuard)))
     ''10.0.0.1'' = None"
proof -
  let ?g6 = "fold (serve (snapshotRequest ''10.0.0.1'')) [0, 0, 0, 0, 0, 0] initialGuard"
  let ?g1 = "serve (healthRequest ''10.0.0.1'') 0 initialGuard"
  let ?t1 = "\<lparr>ip = ''10.0.0.1'', connections = 1, slowConnections = 0, lastActivity = 0,
           isBlocked = False, blockUntil = 0, firstConnection = 0,
           requestCount = 1, timeoutCount = 0\<rparr>"
  have fresh: "connectionMap initialGuard (clientIp_of (healthRequest ''10.0.0.1'')) = None"
    by (simp add: initialGuard_def)
  have g1: "connectionMap ?g1 ''10.0.0.1'' = Some ?t1"
    using serve_first(2)[OF healthRequest_simps(1) fresh, of 0]
    by (simp add: healthRequest_simps(2) newConnectionTracker_def)
  have g0: "connectionMap (removeConnection ''10.0.0.1'' 5 ?g1) ''10.0.0.1'' =
      Some (?t1\<lparr>connections := 0, lastActivity := 5\<rparr>)"
    by (simp add: removeConnection_def g1)
  define G6 where "G6 = ?g6"
  define G1 where "G1 = ?g1"
  note facts = six_downloads[folded G6_def] g1[folded G1_def] g0[folded G1_def]
  show ?thesis
    unfolding G6_def[symmetric] G1_def[symmetric]
    using cleanup_removes_iff[of G6 "''10.0.0.1''" 299999]
      cleanup_removes_iff[of G1 "''10.0.0.1''" 86400000]
      cleanup_removes_iff[of "removeConnection ''10.0.0.1'' 5 G1" "''10.0.0.1''" 86400000]
    by (simp add: facts)
qed

text \<open>
  C1, as the claim states it, fails: a client with six downloads in progress, blocked at
  time 0 until 300000 by the sixth, loses its entry at the tick at 300000 although
  \<open>activeDownloads\<close> is 6.
\<close>

theorem reaper_removes_active_counterexample:
  "downloadMap (fold (serve (snapshotRequest ''10.0.0.1'')) [0, 0, 0, 0, 0, 0] initialGuard)
     ''10.0.0.1'' = Some 0 \<and>
   activeDownloads
     (trackers (fold (serve (snapshotRequest ''10.0.0.1'')) [0, 0, 0, 0, 0, 0] initialGuard) 0)
     = 6 \<and>
   downloadMap
     (cleanupExpiredConnections 300000
        (fold (serve (snapshotRequest ''10.0.0.1'')) [0, 0, 0, 0, 0, 0] initialGuard))
     ''10.0.0.1'' = None"
proof -
  define G where "G = fold (serve (snapshotRequest ''10.0.0.1'')) [0, 0, 0, 0, 0, 0] initialGuard"
  note G = six_downloads[folded G_def]
  show ?thesis
    unfolding G_def[symmetric] by (simp add: cleanup_download G)
qed

subsection \<open>Unregistering\<close>

lemma healthRequest_passes:
  "bodyAccepted (healthRequest ''10.0.0.1'')" "isRequestValid (healthRequest ''10.0.0.1'')"
  "\<not> RATE_LIMIT_skip (healthRequest ''10.0.0.1'')"
  by (simp_all add: healthRequest_def isRequestValid_def RATE_LIMIT_skip_def)

text \<open>
  C4: the code at the input where it departs from the claim, on the server with the guard's
  middleware installed. Two requests of one client are admitted, so \<open>connections\<close> is 2.
  The response of the first emits \<open>finish\<close> and then \<open>close\<close>; each event runs
  \<open>removeConnection\<close>, and the counter goes to 1 and then to 0, although the second
  request is still open (its handlers are installed and its timer is armed).
\<close>

theorem unregister_twice_decrements_twice:
  "map_option connections
     (connectionMap (guardState (run setupMiddlewareWithGuard
        [HttpRequest (healthRequest ''10.0.0.1'') 0, HttpRequest (healthRequest ''10.0.0.1'') 0]
        startServer)) ''10.0.0.1'') = Some 2 \<and>
   map_option connections
     (connectionMap (guardState (run setupMiddlewareWithGuard
        [HttpRequest (healthRequest ''10.0.0.1'') 0, HttpRequest (healthRequest ''10.0.0.1'') 0,
         ResponseFinish 0 10]
        startServer)) ''10.0.0.1'') = Some 1 \<and>
   map_option connections
     (connectionMap (guardState (run setupMiddlewareWithGuard
        [HttpRequest (healthRequest ''10.0.0.1'') 0, HttpRequest (healthRequest ''10.0.0.1'') 0,
         ResponseFinish 0 10, ResponseClose 0 11]
        startServer)) ''10.0.0.1'') = Some 0 \<and>
   handlers (installed (run setupMiddlewareWithGuard
        [HttpRequest (healthRequest ''10.0.0.1'') 0, HttpRequest (healthRequest ''10.0.0.1'') 0,
         ResponseFinish 0 10, ResponseClose 0 11]
        startServer) ! 1) = NextConnection ''10.0.0.1'' (Some 300000)"
  by (simp add: setupMiddlewareWithGuard_def startServer_def initialGuard_def
      middleware_def healthRequest_simps healthRequest_passes isIpBlocked_def addConnection_def
      newConnectionTracker_def shouldBlock_numeric rateLimiter_def Let_def
      CONNECTION_TIMEOUT_def RATE_LIMIT_max_def onTracked_def finishTracked_def
      closeTracked_def connection_finish_def connection_close_def removeConnection_def
      freshResponse_def)

subsection \<open>The cap on concurrent downloads\<close>

lemma retryAfter_range:
  assumes "now' < b" and "b - now' \<le> 1000 * k"
  shows "1 \<le> retryAfter b now'" and "retryAfter b now' \<le> k"
  using assms unfolding retryAfter_div by linarith+

lemma isDownloadBlocked_free:
  assumes "downloadMap g c = Some a"
    and "\<not> (dl_isBlocked (trackers g a) \<and> now < dl_blockUntil (trackers g a))"
  shows "fst (isDownloadBlocked c now g) = False"
    and "downloadMap (snd (isDownloadBlocked c now g)) = downloadMap g"
    and "allocated (snd (isDownloadBlocked c now g)) = allocated g"
    and "activeDownloads (trackers (snd (isDownloadBlocked c now g)) a) =
           activeDownloads (trackers g a)"
  using assms by (auto simp add: isDownloadBlocked_def Let_def)

lemma isDownloadBlocked_blocked:
  assumes "downloadMap g c = Some a"
    and "dl_isBlocked (trackers g a)" and "now < dl_blockUntil (trackers g a)"
  shows "isDownloadBlocked c now g = (True, g)"
  using assms by (simp add: isDownloadBlocked_def Let_def)

lemma addDownload_existing:
  assumes "downloadMap g c = Some a"
  shows "downloadMap (addDownload c now g) = downloadMap g"
    and "trackers (addDownload c now g) a =
      (let t1 = (trackers g a)\<lparr>activeDownloads := activeDownloads (trackers g a) + 1,
                    dl_lastActivity := now, downloadStartTime := now, lastTransferTime := now\<rparr>
       in if 5 < activeDownloads t1
          then t1\<lparr>dl_isBlocked := True, dl_blockUntil := now + 300000\<rparr> else t1)"
  using assms
  by (simp_all add: addDownload_def Let_def DOWNLOAD_MAX_SLOW_DOWNLOADS_def
      DOWNLOAD_BLOCK_DURATION_def)

lemma five_downloads:
  "downloadMap (fold (serve (snapshotRequest ''10.0.0.1'')) [0, 0, 0, 0, 0] initialGuard)
     ''10.0.0.1'' = Some 0"
  "trackers (fold (serve (snapshotRequest ''10.0.0.1'')) [0, 0, 0, 0, 0] initialGuard) 0 =
     \<lparr>dl_ip = ''10.0.0.1'', activeDownloads = 5, slowDownloads = 0, totalBytesTransferred = 0,
      dl_lastActivity = 0, dl_isBlocked = False, dl_blockUntil = 0,
      downloadStartTime = 0, lastTransferTime = 0, transferRate = Num 0\<rparr>"
  by (simp_all add: serve_download snapshotRequest_simps handleDownloadProtection_def
      isDownloadBlocked_def addDownload_def initialGuard_def newDownloadTracker_def Let_def
      DOWNLOAD_MAX_SLOW_DOWNLOADS_def DOWNLOAD_BLOCK_DURATION_def)

text \<open>
  C5 (as amended). A client has 5 active downloads and is not blocked at the moment. Its
  request for a sixth download is not denied: \<open>next()\<close> is called and the download is
  monitored like any other; its register makes \<open>activeDownloads\<close> 6 and blocks the client
  until \<open>now + 300000\<close>. It is the next download request of that client before then that
  is denied at once, with status 429 and \<open>retryAfter = ceil((blockUntil - now') / 1000)\<close>,
  a number between 1 and 300, and nothing is registered for it.
\<close>

theorem sixth_download_admitted_then_blocked:
  assumes dl: "isSnapshotsGet req"
    and e: "downloadMap g (clientIp_of req) = Some a"
    and five: "activeDownloads (trackers g a) = 5"
    and free: "\<not> (dl_isBlocked (trackers g a) \<and> now < dl_blockUntil (trackers g a))"
    and again: "now \<le> now'" "now' < now + 300000"
  shows "fst (middleware req now g) =
           NextDownload (clientIp_of req)
             (Some \<lparr>trackerRef = a, bytesTransferred = 0, startTime = now,
                    downloadTimeout = Some (now + 3600000)\<rparr>) \<and>
         activeDownloads (trackers (serve req now g) a) = 6 \<and>
         dl_isBlocked (trackers (serve req now g) a) \<and>
         dl_blockUntil (trackers (serve req now g) a) = now + 300000 \<and>
         middleware req now' (serve req now g) =
           (Reply 429 (retryAfter (now + 300000) now'), serve req now g) \<and>
         1 \<le> retryAfter (now + 300000) now' \<and> retryAfter (now + 300000) now' \<le> 300"
proof -
  define c where "c = clientIp_of req"
  define g1 where "g1 = snd (isDownloadBlocked c now g)"
  define g6 where "g6 = addDownload c now g1"
  have e': "downloadMap g c = Some a" using e by (simp add: c_def)
  note adm = isDownloadBlocked_free[OF e' free]
  have e1: "downloadMap g1 c = Some a" using adm(2) e' by (simp add: g1_def)
  have five1: "activeDownloads (trackers g1 a) = 5" using adm(4) five by (simp add: g1_def)
  have m6: "downloadMap g6 c = Some a"
    using addDownload_existing(1)[OF e1] e1 by (simp add: g6_def)
  have t6: "activeDownloads (trackers g6 a) = 6 \<and> dl_isBlocked (trackers g6 a) \<and>
            dl_blockUntil (trackers g6 a) = now + 300000"
    unfolding g6_def addDownload_existing(2)[OF e1] by (simp add: Let_def five1)
  have hd: "handleDownloadProtection c now g =
      (NextDownload c (setupDownloadMonitoring c now g6), g6)"
    using adm(1)
    by (cases "isDownloadBlocked c now g")
       (simp add: handleDownloadProtection_def g1_def g6_def Let_def)
  have mw: "middleware req now g = (NextDownload c (setupDownloadMonitoring c now g6), g6)"
    using dl hd by (simp add: middleware_def Let_def c_def)
  have sv: "serve req now g = g6" by (simp add: serve_def mw)
  have mon: "setupDownloadMonitoring c now g6 =
      Some \<lparr>trackerRef = a, bytesTransferred = 0, startTime = now,
            downloadTimeout = Some (now + 3600000)\<rparr>"
    by (simp add: setupDownloadMonitoring_def m6 DOWNLOAD_MAX_DOWNLOAD_DURATION_def)
  have blk: "isDownloadBlocked c now' g6 = (True, g6)"
    by (rule isDownloadBlocked_blocked[OF m6]) (use t6 again in simp_all)
  have deny: "middleware req now' g6 = (Reply 429 (retryAfter (now + 300000) now'), g6)"
    using dl t6
    by (simp add: middleware_def Let_def c_def[symmetric] handleDownloadProtection_def blk
        getDownloadBlockTime_def m6)
  have r: "1 \<le> retryAfter (now + 300000) now' \<and> retryAfter (now + 300000) now' \<le> 300"
    using retryAfter_range[of now' "now + 300000" 300] again by simp
  show ?thesis
    unfolding sv c_def[symmetric] using mw mon t6 deny r by simp
qed

theorem sixth_download_admitted_then_blocked_witness:
  "isSnapshotsGet (snapshotRequest ''10.0.0.1'') \<and>
   downloadMap (fold (serve (snapshotRequest ''10.0.0.1'')) [0, 0, 0, 0, 0] initialGuard)
     (clientIp_of (snapshotRequest ''10.0.0.1'')) = Some 0 \<and>
   activeDownloads
     (trackers (fold (serve (snapshotRequest ''10.0.0.1'')) [0, 0, 0, 0, 0] initialGuard) 0)
     = 5 \<and>
   activeDownloads
     (trackers (serve (snapshotRequest ''10.0.0.1'') 1
        (fold (serve (snapshotRequest ''10.0.0.1'')) [0, 0, 0, 0, 0] initialGuard)) 0) = 6 \<and>
   middleware (snapshotRequest ''10.0.0.1'') 2
     (serve (snapshotRequest ''10.0.0.1'') 1
        (fold (serve (snapshotRequest ''10.0.0.1'')) [0, 0, 0, 0, 0] initialGuard)) =
     (Reply 429 300,
      serve (snapshotRequest ''10.0.0.1'') 1
        (fold (serve (snapshotRequest ''10.0.0.1'')) [0, 0, 0, 0, 0] initialGuard))"
proof -
  define G where "G = fold (serve (snapshotRequest ''10.0.0.1'')) [0, 0, 0, 0, 0] initialGuard"
  note G = five_downloads[folded G_def]
  have e: "downloadMap G (clientIp_of (snapshotRequest ''10.0.0.1'')) = Some 0"
    by (simp add: G snapshotRequest_simps)
  have five: "activeDownloads (trackers G 0) = 5" by (simp add: G)
  have free: "\<not> (dl_isBlocked (trackers G 0) \<and> 1 < dl_blockUntil (trackers G 0))"
    by (simp add: G)
  have r: "retryAfter (1 + 300000) 2 = 300" by (simp add: retryAfter_div)
  show ?thesis
    unfolding G_def[symmetric]
    using sixth_download_admitted_then_blocked[OF snapshotRequest_simps(1) e five free, of 2]
      e five r
    by (simp add: snapshotRequest_simps)
qed

text \<open>
  C5, as the claim states it, fails: with five downloads in progress, the request for the
  sixth is passed on to the download route, not answered 429.
\<close>

theorem sixth_download_counterexample:
  "downloadMap (fold (serve (snapshotRequest ''10.0.0.1'')) [0, 0, 0, 0, 0] initialGuard)
     ''10.0.0.1'' = Some 0 \<and>
   activeDownloads
     (trackers (fold (serve (snapshotRequest ''10.0.0.1'')) [0, 0, 0, 0, 0] initialGuard) 0)
     = 5 \<and>
   fst (middleware (snapshotRequest ''10.0.0.1'') 1
          (fold (serve (snapshotRequest ''10.0.0.1'')) [0, 0, 0, 0, 0] initialGuard)) =
     NextDownload ''10.0.0.1''
       (Some \<lparr>trackerRef = 0, bytesTransferred = 0, startTime = 1,
              downloadTimeout = Some 3600001\<rparr>)"
proof -
  define G where "G = fold (serve (snapshotRequest ''10.0.0.1'')) [0, 0, 0, 0, 0] initialGuard"
  note G = five_downloads[folded G_def]
  show ?thesis
    unfolding G_def[symmetric]
    by (simp add: G middleware_def snapshotRequest_simps handleDownloadProtection_def
        isDownloadBlocked_def addDownload_def setupDownloadMonitoring_def Let_def
        DOWNLOAD_MAX_DOWNLOAD_DURATION_def)
qed

subsection \<open>The counters are never negative\<close>

lemma exec_connections_nonneg:
  assumes "\<forall>c t. connectionMap g c = Some t \<longrightarrow> 0 \<le> connections t"
  shows "\<forall>c t. connectionMap (exec x g) c = Some t \<longrightarrow> 0 \<le> connections t"
proof (cases x)
  case (IsIpBlocked c now)
  then show ?thesis
    using assms by (auto simp add: isIpBlocked_def split: option.splits if_splits)
next
  case (AddConnection c now)
  then show ?thesis
    using assms
    by (auto simp add: addConnection_def Let_def newConnectionTracker_def
        split: option.splits if_splits)
next
  case (RemoveConnection c now)
  then show ?thesis
    using assms by (auto simp add: removeConnection_def split: option.splits if_splits)
next
  case (RecordTimeout c now)
  then show ?thesis
    using assms by (auto simp add: recordTimeout_def Let_def split: option.splits if_splits)
next
  case (IsDownloadBlocked c now)
  then show ?thesis
    using assms by (auto simp add: isDownloadBlocked_def Let_def split: option.splits if_splits)
next
  case (AddDownload c now)
  then show ?thesis
    using assms by (auto simp add: addDownload_def Let_def split: option.splits if_splits)
next
  case (RemoveDownload c now)
  then show ?thesis
    using assms by (auto simp add: removeDownload_def Let_def split: option.splits if_splits)
next
  case (ResWrite ch now d)
  then show ?thesis
    using assms by (auto simp add: res_write_def Let_def split: chunk.splits)
next
  case (ResEnd ch d)
  then show ?thesis
    using assms by (auto simp add: res_end_def Let_def split: chunk.splits)
next
  case (DownloadTimeout now d r)
  then show ?thesis
    using assms by (auto simp add: downloadTimeout_callback_def res_end_def Let_def)
next
  case (CleanupExpiredConnections now)
  then show ?thesis
    using assms
    by (auto simp add: cleanupExpiredConnections_def split: option.splits if_splits)
next
  case Destroy
  then show ?thesis by (simp add: destroy_def)
qed

lemma exec_activeDownloads_nonneg:
  assumes "\<forall>a. 0 \<le> activeDownloads (trackers g a)"
  shows "\<forall>a. 0 \<le> activeDownloads (trackers (exec x g) a)"
proof (cases x)
  case (IsIpBlocked c now)
  then show ?thesis
    using assms by (auto simp add: isIpBlocked_def split: option.splits if_splits)
next
  case (AddConnection c now)
  then show ?thesis
    using assms by (auto simp add: addConnection_def Let_def)
next
  case (RemoveConnection c now)
  then show ?thesis
    using assms by (auto simp add: removeConnection_def split: option.splits if_splits)
next
  case (RecordTimeout c now)
  then show ?thesis
    using assms by (auto simp add: recordTimeout_def Let_def split: option.splits if_splits)
next
  case (IsDownloadBlocked c now)
  then show ?thesis
    using assms by (auto simp add: isDownloadBlocked_def Let_def split: option.splits if_splits)
next
  case (AddDownload c now)
  have "0 \<le> activeDownloads (trackers (addDownload c now g) a)" for a
  proof (cases "downloadMap g c")
    case None
    then show ?thesis
      using assms[rule_format, of a]
      by (simp add: addDownload_def Let_def newDownloadTracker_def)
  next
    case (Some b)
    then show ?thesis
      using assms[rule_format, of a] assms[rule_format, of b]
      by (simp add: addDownload_def Let_def)
  qed
  then show ?thesis using AddDownload by simp
next
  case (RemoveDownload c now)
  then show ?thesis
    using assms by (auto simp add: removeDownload_def Let_def split: option.splits if_splits)
next
  case (ResWrite ch now d)
  then show ?thesis
    using assms by (auto simp add: res_write_def Let_def split: chunk.splits)
next
  case (ResEnd ch d)
  then show ?thesis
    using assms by (auto simp add: res_end_def Let_def split: chunk.splits)
next
  case (DownloadTimeout now d r)
  then show ?thesis
    using assms by (auto simp add: downloadTimeout_callback_def res_end_def Let_def)
next
  case (CleanupExpiredConnections now)
  then show ?thesis
    using assms by (simp add: cleanupExpiredConnections_def)
next
  case Destroy
  then show ?thesis using assms by (simp add: destroy_def)
qed

lemma fold_exec_nonneg:
  assumes "\<forall>c t. connectionMap g c = Some t \<longrightarrow> 0 \<le> connections t"
    and "\<forall>a. 0 \<le> activeDownloads (trackers g a)"
  shows "(\<forall>c t. connectionMap (fold exec calls g) c = Some t \<longrightarrow> 0 \<le> connections t) \<and>
         (\<forall>a. 0 \<le> activeDownloads (trackers (fold exec calls g) a))"
  using assms
proof (induction calls arbitrary: g)
  case Nil
  then show ?case by simp
next
  case (Cons x xs)
  show ?case
    unfolding fold_simps
    by (rule Cons.IH[OF exec_connections_nonneg[OF Cons.prems(1)]
          exec_activeDownloads_nonneg[OF Cons.prems(2)]])
qed

text \<open>
  C7. After any sequence of calls on the guard from its initial state (registers and
  unregisters in any order and number, matched or not, together with every other function
  and closure that changes the trackers), the \<open>connections\<close> field of every entry of the
  connection map and the \<open>activeDownloads\<close> field of every entry of the download map are
  at least 0. The sequence is arbitrary, so this holds after each of its calls.
\<close>

theorem counters_never_negative:
  "(\<forall>t. connectionMap (fold exec calls initialGuard) c = Some t \<longrightarrow> 0 \<le> connections t) \<and>
   (\<forall>a. downloadMap (fold exec calls initialGuard) c = Some a \<longrightarrow>
        0 \<le> activeDownloads (trackers (fold exec calls initialGuard) a))"
proof -
  have "\<forall>c t. connectionMap initialGuard c = Some t \<longrightarrow> 0 \<le> connections t"
    by (simp add: initialGuard_def)
  moreover have "\<forall>a. 0 \<le> activeDownloads (trackers initialGuard a)"
    by (simp add: initialGuard_def newDownloadTracker_def)
  ultimately show ?thesis
    using fold_exec_nonneg[of initialGuard calls] by blast
qed

theorem counters_never_negative_witness:
  "connectionMap
     (fold exec [AddConnection ''10.0.0.1'' 0, RemoveConnection ''10.0.0.1'' 1,
                 RemoveConnection ''10.0.0.1'' 2, RemoveConnection ''10.0.0.1'' 3,
                 AddDownload ''10.0.0.1'' 4, RemoveDownload ''10.0.0.1'' 5,
                 RemoveDownload ''10.0.0.1'' 6] initialGuard) ''10.0.0.1'' =
     Some \<lparr>ip = ''10.0.0.1'', connections = 0, slowConnections = 0, lastActivity = 1,
           isBlocked = False, blockUntil = 0, firstConnection = 0,
           requestCount = 1, timeoutCount = 0\<rparr> \<and>
   downloadMap
     (fold exec [AddConnection ''10.0.0.1'' 0, RemoveConnection ''10.0.0.1'' 1,
                 RemoveConnection ''10.0.0.1'' 2, RemoveConnection ''10.0.0.1'' 3,
                 AddDownload ''10.0.0.1'' 4, RemoveDownload ''10.0.0.1'' 5,
                 RemoveDownload ''10.0.0.1'' 6] initialGuard) ''10.0.0.1'' = Some 0 \<and>
   0 \<le> activeDownloads (trackers
     (fold exec [AddConnection ''10.0.0.1'' 0, RemoveConnection ''10.0.0.1'' 1,
                 RemoveConnection ''10.0.0.1'' 2, RemoveConnection ''10.0.0.1'' 3,
                 AddDownload ''10.0.0.1'' 4, RemoveDownload ''10.0.0.1'' 5,
                 RemoveDownload ''10.0.0.1'' 6] initialGuard) 0)"
proof -
  define calls where "calls = [AddConnection ''10.0.0.1'' 0, RemoveConnection ''10.0.0.1'' 1,
                 RemoveConnection ''10.0.0.1'' 2, RemoveConnection ''10.0.0.1'' 3,
                 AddDownload ''10.0.0.1'' 4, RemoveDownload ''10.0.0.1'' 5,
                 RemoveDownload ''10.0.0.1'' 6]"
  have c: "connectionMap (fold exec calls initialGuard) ''10.0.0.1'' =
     Some \<lparr>ip = ''10.0.0.1'', connections = 0, slowConnections = 0, lastActivity = 1,
           isBlocked = False, blockUntil = 0, firstConnection = 0,
           requestCount = 1, timeoutCount = 0\<rparr>"
    by (simp add: calls_def initialGuard_def addConnection_def removeConnection_def
        addDownload_def removeDownload_def newConnectionTracker_def newDownloadTracker_def
        shouldBlock_numeric Let_def)
  have d: "downloadMap (fold exec calls initialGuard) ''10.0.0.1'' = Some 0"
    by (simp add: calls_def initialGuard_def addConnection_def removeConnection_def
        addDownload_def removeDownload_def newConnectionTracker_def newDownloadTracker_def
        shouldBlock_numeric Let_def)
  show ?thesis
    unfolding calls_def[symmetric]
    using counters_never_negative[of calls "''10.0.0.1''"] c d by simp
qed

subsection \<open>Sampling the transfer rate\<close>

lemma first_download:
  "middleware (snapshotRequest ''10.0.0.1'') 0 initialGuard =
     (NextDownload ''10.0.0.1''
        (Some \<lparr>trackerRef = 0, bytesTransferred = 0, startTime = 0,
               downloadTimeout = Some 3600000\<rparr>),
      serve (snapshotRequest ''10.0.0.1'') 0 initialGuard)"
  "downloadMap (serve (snapshotRequest ''10.0.0.1'') 0 initialGuard) ''10.0.0.1'' = Some 0"
  "trackers (serve (snapshotRequest ''10.0.0.1'') 0 initialGuard) 0 =
     \<lparr>dl_ip = ''10.0.0.1'', activeDownloads = 1, slowDownloads = 0, totalBytesTransferred = 0,
      dl_lastActivity = 0, dl_isBlocked = False, dl_blockUntil = 0,
      downloadStartTime = 0, lastTransferTime = 0, transferRate = Num 0\<rparr>"
  by (simp_all add: serve_def middleware_def snapshotRequest_simps handleDownloadProtection_def
      isDownloadBlocked_def addDownload_def setupDownloadMonitoring_def initialGuard_def
      newDownloadTracker_def Let_def DOWNLOAD_MAX_SLOW_DOWNLOADS_def
      DOWNLOAD_MAX_DOWNLOAD_DURATION_def)

text \<open>
  C8 (as amended). A write of a buffer of \<open>len\<close> bytes adds \<open>len\<close> to the closure's
  \<open>bytesTransferred\<close> and to the tracker's \<open>totalBytesTransferred\<close>. The rate is recomputed
  only when strictly more than 1000 ms have passed since the tracker's \<open>lastTransferTime\<close>;
  it is then the number of bytes written through this response since the download began
  divided by the seconds since the download began (not the bytes and seconds of the last
  window), \<open>lastTransferTime\<close> becomes \<open>now\<close>, and \<open>slowDownloads\<close> grows by exactly one
  when the new rate is below 128 and stays otherwise. A write of anything but a buffer
  changes nothing.
\<close>

theorem res_write_samples:
  "res_write NoChunk now d g = (d, g) \<and>
   res_write OtherChunk now d g = (d, g) \<and>
   res_write (Buffer len) now d g =
     (d\<lparr>bytesTransferred := bytesTransferred d + int len\<rparr>,
      g\<lparr>trackers := (trackers g)(trackerRef d :=
          (let t = trackers g (trackerRef d);
               rate = js_div (rat_of_int (bytesTransferred d + int len))
                             (rat_of_int (now - startTime d) / 1000)
           in if 1000 < now - lastTransferTime t
              then t\<lparr>totalBytesTransferred := totalBytesTransferred t + int len,
                     transferRate := rate,
                     lastTransferTime := now,
                     slowDownloads := slowDownloads t + (if js_lt rate 128 then 1 else 0)\<rparr>
              else t\<lparr>totalBytesTransferred := totalBytesTransferred t + int len\<rparr>))\<rparr>) \<and>
   (startTime d < now \<longrightarrow>
      js_div (rat_of_int (bytesTransferred d + int len))
             (rat_of_int (now - startTime d) / 1000) =
      Num (rat_of_int (1000 * (bytesTransferred d + int len)) / rat_of_int (now - startTime d)))"
proof -
  have "startTime d < now \<Longrightarrow>
      js_div (rat_of_int (bytesTransferred d + int len))
             (rat_of_int (now - startTime d) / 1000) =
      Num (rat_of_int (1000 * (bytesTransferred d + int len)) / rat_of_int (now - startTime d))"
    by (simp add: js_div_def)
  then show ?thesis
    by (simp add: res_write_def Let_def DOWNLOAD_SLOW_DOWNLOAD_THRESHOLD_def)
qed

theorem res_write_samples_witness:
  "(0::int) < 1500 \<and>
   res_write (Buffer 1000000) 1500
     \<lparr>trackerRef = 0, bytesTransferred = 0, startTime = 0, downloadTimeout = Some 3600000\<rparr>
     (serve (snapshotRequest ''10.0.0.1'') 0 initialGuard) =
   (\<lparr>trackerRef = 0, bytesTransferred = 1000000, startTime = 0,
      downloadTimeout = Some 3600000\<rparr>,
    (serve (snapshotRequest ''10.0.0.1'') 0 initialGuard)
     \<lparr>trackers := (trackers (serve (snapshotRequest ''10.0.0.1'') 0 initialGuard))
        (0 := \<lparr>dl_ip = ''10.0.0.1'', activeDownloads = 1, slowDownloads = 0,
                totalBytesTransferred = 1000000,
                dl_lastActivity = 0, dl_isBlocked = False, dl_blockUntil = 0,
                downloadStartTime = 0, lastTransferTime = 1500,
                transferRate = Num (2000000 / 3)\<rparr>)\<rparr>)"
proof -
  define G where "G = serve (snapshotRequest ''10.0.0.1'') 0 initialGuard"
  note G = first_download(2,3)[folded G_def]
  let ?d = "\<lparr>trackerRef = 0, bytesTransferred = 0, startTime = 0,
             downloadTimeout = Some 3600000\<rparr>"
  show ?thesis
    unfolding G_def[symmetric]
    using res_write_samples[of 1500 ?d G 1000000]
    by (simp add: G Let_def)
qed

text \<open>
  C8, as the claim states it, fails twice. A download writes 1000000 bytes at 1500 ms and
  10 bytes at 11500 ms: the window since the last sample holds 10 bytes in 10 seconds, a rate
  of 1 byte per second and below the threshold, but the code stores 1000010 / 11.5 and does
  not count a slow sample. And a write exactly 1000 ms after the last sample does not
  recompute the rate at all.
\<close>

theorem window_rate_counterexample:
  "trackers
     (snd (writes [(Buffer 1000000, 1500), (Buffer 10, 11500)]
        (\<lparr>trackerRef = 0, bytesTransferred = 0, startTime = 0,
           downloadTimeout = Some 3600000\<rparr>,
         serve (snapshotRequest ''10.0.0.1'') 0 initialGuard))) 0 =
     \<lparr>dl_ip = ''10.0.0.1'', activeDownloads = 1, slowDownloads = 0,
      totalBytesTransferred = 1000010,
      dl_lastActivity = 0, dl_isBlocked = False, dl_blockUntil = 0,
      downloadStartTime = 0, lastTransferTime = 11500,
      transferRate = Num (2000020 / 23)\<rparr> \<and>
   spec_sample (Num (2000000 / 3)) 10 10000 = Num 1 \<and>
   js_lt (Num 1) DOWNLOAD_SLOW_DOWNLOAD_THRESHOLD \<and>
   transferRate (trackers
     (snd (writes [(Buffer 1000000, 1500), (Buffer 10, 2500)]
        (\<lparr>trackerRef = 0, bytesTransferred = 0, startTime = 0,
           downloadTimeout = Some 3600000\<rparr>,
         serve (snapshotRequest ''10.0.0.1'') 0 initialGuard))) 0) = Num (2000000 / 3) \<and>
   spec_sample (Num (2000000 / 3)) 10 1000 = Num 10"
proof -
  define G where "G = serve (snapshotRequest ''10.0.0.1'') 0 initialGuard"
  note G = first_download(2,3)[folded G_def]
  show ?thesis
    unfolding G_def[symmetric]
    by (simp add: res_write_def Let_def G js_div_def spec_sample_def
        DOWNLOAD_SLOW_DOWNLOAD_THRESHOLD_def)
qed

subsection \<open>The watchdog of a download\<close>

text \<open>
  Every download request that is admitted arms a timer with the deadline \<open>now + 3600000\<close>
  and captures the tracker of its client. Run before the deadline the timer does nothing.
  Run at or after it, the callback looks at the \<open>transferRate\<close> of the captured tracker:
  below 256 it sets that tracker blocked until \<open>now + 300000\<close>, answers 408 if the headers
  are not sent yet (the 52 bytes of the reply are counted), and ends the response; otherwise
  it changes nothing. A cleared timer does nothing whenever it would have run.
\<close>

lemma download_admitted:
  assumes dl: "isSnapshotsGet req"
    and free: "fst (isDownloadBlocked (clientIp_of req) now g) = False"
  shows "\<exists>a. downloadMap (serve req now g) (clientIp_of req) = Some a \<and>
           middleware req now g =
             (NextDownload (clientIp_of req)
                (Some \<lparr>trackerRef = a, bytesTransferred = 0, startTime = now,
                       downloadTimeout = Some (now + 3600000)\<rparr>),
              serve req now g)"
proof -
  define c where "c = clientIp_of req"
  define g1 where "g1 = snd (isDownloadBlocked c now g)"
  define g2 where "g2 = addDownload c now g1"
  have hd: "handleDownloadProtection c now g =
      (NextDownload c (setupDownloadMonitoring c now g2), g2)"
    using free
    by (cases "isDownloadBlocked c now g")
       (simp add: handleDownloadProtection_def g1_def g2_def Let_def c_def)
  have mw: "middleware req now g = (NextDownload c (setupDownloadMonitoring c now g2), g2)"
    using dl hd by (simp add: middleware_def Let_def c_def)
  have sv: "serve req now g = g2" by (simp add: serve_def mw)
  obtain a where a: "downloadMap g2 c = Some a"
    by (cases "downloadMap g1 c") (auto simp add: g2_def addDownload_def Let_def)
  have "setupDownloadMonitoring c now g2 =
      Some \<lparr>trackerRef = a, bytesTransferred = 0, startTime = now,
            downloadTimeout = Some (now + 3600000)\<rparr>"
    by (simp add: setupDownloadMonitoring_def a DOWNLOAD_MAX_DOWNLOAD_DURATION_def)
  then show ?thesis
    unfolding sv c_def[symmetric] using a mw by simp
qed

lemma fire_downloadTimeout_armed:
  assumes "downloadTimeout d = Some deadline"
  shows "fire_downloadTimeout now d res0 g =
     (if now < deadline then (d, res0, g)
      else if js_lt (transferRate (trackers g (trackerRef d))) 256
      then (if headersSent res0
            then (d\<lparr>downloadTimeout := None\<rparr>, res0\<lparr>ended := True\<rparr>,
                  g\<lparr>trackers := (trackers g)(trackerRef d :=
                       (trackers g (trackerRef d))
                         \<lparr>dl_isBlocked := True, dl_blockUntil := now + 300000\<rparr>)\<rparr>)
            else (d\<lparr>bytesTransferred := bytesTransferred d + 52, downloadTimeout := None\<rparr>,
                  res0\<lparr>statusCode := 408, headersSent := True, ended := True\<rparr>,
                  g\<lparr>trackers := (trackers g)(trackerRef d :=
                       (trackers g (trackerRef d))
                         \<lparr>dl_isBlocked := True, dl_blockUntil := now + 300000,
                           totalBytesTransferred :=
                             totalBytesTransferred (trackers g (trackerRef d)) + 52\<rparr>)\<rparr>))
      else (d\<lparr>downloadTimeout := None\<rparr>, res0, g))"
  using assms
  by (simp add: fire_downloadTimeout_def downloadTimeout_callback_def res_end_def Let_def
      DOWNLOAD_MIN_TRANSFER_RATE_def DOWNLOAD_BLOCK_DURATION_def DOWNLOAD_TOO_SLOW_BODY_def)

lemma fire_downloadTimeout_cleared:
  "fire_downloadTimeout now (clear_downloadTimeout d) res0 g = (clear_downloadTimeout d, res0, g)"
  by (simp add: fire_downloadTimeout_def clear_downloadTimeout_def)

text \<open>
  As long as the captured tracker is still the client's entry of the download map, the
  block is seen by the client's next download requests.
\<close>

lemma watchdog_blocks_entry:
  assumes "downloadTimeout d = Some deadline" "deadline \<le> now"
      "js_lt (transferRate (trackers g (trackerRef d))) 256"
      "downloadMap g c = Some (trackerRef d)" "now \<le> now'" "now' < now + 300000"
  shows "isDownloadBlocked c now' (snd (snd (fire_downloadTimeout now d res0 g))) =
        (True, snd (snd (fire_downloadTimeout now d res0 g)))"
proof (rule isDownloadBlocked_blocked[where a = "trackerRef d"])
  show "downloadMap (snd (snd (fire_downloadTimeout now d res0 g))) c = Some (trackerRef d)"
    using assms by (simp add: fire_downloadTimeout_armed)
  show "dl_isBlocked (trackers (snd (snd (fire_downloadTimeout now d res0 g))) (trackerRef d))"
    using assms by (simp add: fire_downloadTimeout_armed)
  show "now' < dl_blockUntil
          (trackers (snd (snd (fire_downloadTimeout now d res0 g))) (trackerRef d))"
    using assms by (simp add: fire_downloadTimeout_armed)
qed

text \<open>
  C6: the code at the input where it departs from the claim. A client starts six downloads
  at time 0; the sixth blocks it until 300000, and no byte of any response is written. The
  tick of the reaper at 300000 removes the client's entry, because its block has lapsed. At
  3600000 the watchdog of the first download runs: the rate of the tracker it captured is 0,
  so it answers 408, ends the response and sets that tracker blocked until 3900000. But the
  download map no longer holds this tracker: the client has no entry, and its next download
  request at 3600001 is admitted on a new tracker. The client is not blocked.
\<close>

theorem watchdog_on_reaped_entry:
  "middleware (snapshotRequest ''10.0.0.1'') 0 initialGuard =
     (NextDownload ''10.0.0.1''
        (Some \<lparr>trackerRef = 0, bytesTransferred = 0, startTime = 0,
               downloadTimeout = Some 3600000\<rparr>),
      serve (snapshotRequest ''10.0.0.1'') 0 initialGuard) \<and>
   downloadMap (fold (serve (snapshotRequest ''10.0.0.1'')) [0, 0, 0, 0, 0, 0] initialGuard)
     ''10.0.0.1'' = Some 0 \<and>
   downloadMap
     (cleanupExpiredConnections 300000
        (fold (serve (snapshotRequest ''10.0.0.1'')) [0, 0, 0, 0, 0, 0] initialGuard))
     ''10.0.0.1'' = None \<and>
   fst (snd (fire_downloadTimeout 3600000
     \<lparr>trackerRef = 0, bytesTransferred = 0, startTime = 0, downloadTimeout = Some 3600000\<rparr>
     freshResponse
     (cleanupExpiredConnections 300000
        (fold (serve (snapshotRequest ''10.0.0.1'')) [0, 0, 0, 0, 0, 0] initialGuard)))) =
     \<lparr>statusCode = 408, headersSent = True, ended = True\<rparr> \<and>
   trackers (snd (snd (fire_downloadTimeout 3600000
     \<lparr>trackerRef = 0, bytesTransferred = 0, startTime = 0, downloadTimeout = Some 3600000\<rparr>
     freshResponse
     (cleanupExpiredConnections 300000
        (fold (serve (snapshotRequest ''10.0.0.1'')) [0, 0, 0, 0, 0, 0] initialGuard))))) 0 =
     \<lparr>dl_ip = ''10.0.0.1'', activeDownloads = 6, slowDownloads = 0, totalBytesTransferred = 52,
      dl_lastActivity = 0, dl_isBlocked = True, dl_blockUntil = 3900000,
      downloadStartTime = 0, lastTransferTime = 0, transferRate = Num 0\<rparr> \<and>
   downloadMap (snd (snd (fire_downloadTimeout 3600000
     \<lparr>trackerRef = 0, bytesTransferred = 0, startTime = 0, downloadTimeout = Some 3600000\<rparr>
     freshResponse
     (cleanupExpiredConnections 300000
        (fold (serve (snapshotRequest ''10.0.0.1'')) [0, 0, 0, 0, 0, 0] initialGuard)))))
     ''10.0.0.1'' = None \<and>
   fst (middleware (snapshotRequest ''10.0.0.1'') 3600001
     (snd (snd (fire_downloadTimeout 3600000
       \<lparr>trackerRef = 0, bytesTransferred = 0, startTime = 0, downloadTimeout = Some 3600000\<rparr>
       freshResponse
       (cleanupExpiredConnections 300000
          (fold (serve (snapshotRequest ''10.0.0.1'')) [0, 0, 0, 0, 0, 0] initialGuard)))))) =
     NextDownload ''10.0.0.1''
       (Some \<lparr>trackerRef = 1, bytesTransferred = 0, startTime = 3600001,
              downloadTimeout = Some 7200001\<rparr>)"
proof -
  define G where "G = fold (serve (snapshotRequest ''10.0.0.1'')) [0, 0, 0, 0, 0, 0] initialGuard"
  define R where "R = cleanupExpiredConnections 300000 G"
  define d where "d = \<lparr>trackerRef = 0, bytesTransferred = 0, startTime = 0,
                        downloadTimeout = Some 3600000\<rparr>"
  define F where "F = snd (snd (fire_downloadTimeout 3600000 d freshResponse R))"
  note G = six_downloads[folded G_def]
  have alloc: "allocated G = 1"
    by (simp add: G_def serve_download snapshotRequest_simps handleDownloadProtection_def
      isDownloadBlocked_def addDownload_def initialGuard_def newDownloadTracker_def Let_def
      DOWNLOAD_MAX_SLOW_DOWNLOADS_def DOWNLOAD_BLOCK_DURATION_def)
  have R: "downloadMap R ''10.0.0.1'' = None" "trackers R = trackers G" "allocated R = 1"
    by (simp_all add: R_def cleanup_download cleanup_frame G alloc)
  have t: "downloadTimeout d = Some 3600000" "trackerRef d = 0" "bytesTransferred d = 0"
    by (simp_all add: d_def)
  have fire: "fire_downloadTimeout 3600000 d freshResponse R =
      (d\<lparr>bytesTransferred := 52, downloadTimeout := None\<rparr>,
       \<lparr>statusCode = 408, headersSent = True, ended = True\<rparr>,
       R\<lparr>trackers := (trackers R)(0 := (trackers G 0)
            \<lparr>dl_isBlocked := True, dl_blockUntil := 3900000, totalBytesTransferred := 52\<rparr>)\<rparr>)"
    by (simp add: fire_downloadTimeout_armed[OF t(1)] t R G freshResponse_def)
  have F: "downloadMap F ''10.0.0.1'' = None" "allocated F = 1"
    "trackers F 0 =
     \<lparr>dl_ip = ''10.0.0.1'', activeDownloads = 6, slowDownloads = 0, totalBytesTransferred = 52,
      dl_lastActivity = 0, dl_isBlocked = True, dl_blockUntil = 3900000,
      downloadStartTime = 0, lastTransferTime = 0, transferRate = Num 0\<rparr>"
    by (simp_all add: F_def fire R G)
  have r: "fst (snd (fire_downloadTimeout 3600000 d freshResponse R)) =
     \<lparr>statusCode = 408, headersSent = True, ended = True\<rparr>"
    by (simp add: fire)
  have again: "fst (middleware (snapshotRequest ''10.0.0.1'') 3600001 F) =
     NextDownload ''10.0.0.1''
       (Some \<lparr>trackerRef = 1, bytesTransferred = 0, startTime = 3600001,
              downloadTimeout = Some 7200001\<rparr>)"
    by (simp add: middleware_def snapshotRequest_simps handleDownloadProtection_def
        isDownloadBlocked_def addDownload_def setupDownloadMonitoring_def Let_def F
        DOWNLOAD_MAX_DOWNLOAD_DURATION_def)
  show ?thesis
    unfolding G_def[symmetric] R_def[symmetric] d_def[symmetric] F_def[symmetric]
    using first_download(1) G(1) R(1) r F(3) F(1) again
    by (simp add: d_def)
qed

subsection \<open>The server as it is constructed\<close>

lemma applyMiddleware_other:
  assumes "m \<noteq> SlowLorisMiddleware"
  shows "guardState (snd (applyMiddleware m req now s)) = guardState s"
    and "installed (snd (applyMiddleware m req now s)) = installed s"
    and "isShuttingDown (snd (applyMiddleware m req now s)) = isShuttingDown s"
    and "exited (snd (applyMiddleware m req now s)) = exited s"
  using assms by (cases m; simp add: Let_def split: prod.split)+

lemma runPipeline_other:
  assumes "SlowLorisMiddleware \<notin> set ms"
  shows "guardState (runPipeline ms req now s) = guardState s \<and>
         installed (runPipeline ms req now s) = installed s \<and>
         isShuttingDown (runPipeline ms req now s) = isShuttingDown s \<and>
         exited (runPipeline ms req now s) = exited s"
  using assms
proof (induction ms arbitrary: s)
  case Nil
  then show ?case by simp
next
  case (Cons m ms)
  then have m: "m \<noteq> SlowLorisMiddleware" and ms: "SlowLorisMiddleware \<notin> set ms"
    by auto
  obtain b s' where a: "applyMiddleware m req now s = (b, s')"
    by (cases "applyMiddleware m req now s")
  have s': "guardState s' = guardState s" "installed s' = installed s"
    "isShuttingDown s' = isShuttingDown s" "exited s' = exited s"
    using applyMiddleware_other[OF m, of req now s] by (simp_all add: a)
  show ?case
    using Cons.IH[OF ms, of s'] s' by (simp add: a)
qed

lemma setupMiddleware_without_guard: "SlowLorisMiddleware \<notin> set setupMiddleware"
  by (simp add: setupMiddleware_def)

lemma cleanup_empty:
  assumes "connectionMap g = Map.empty" "downloadMap g = Map.empty"
  shows "connectionMap (cleanupExpiredConnections now g) = Map.empty"
    and "downloadMap (cleanupExpiredConnections now g) = Map.empty"
    and "cleanupInterval (cleanupExpiredConnections now g) = cleanupInterval g"
  using assms by (simp_all add: cleanupExpiredConnections_def)

lemma step_untracked:
  assumes "untracked s"
  shows "untracked (step setupMiddleware e s) \<and>
         isShuttingDown (step setupMiddleware e s) = (isShuttingDown s \<or> e = Signal)"
proof (cases e)
  case (HttpRequest req now)
  then show ?thesis
    using assms runPipeline_other[OF setupMiddleware_without_guard, of req now s]
    by (simp add: untracked_def)
next
  case (ReaperTick now)
  then show ?thesis
    using assms by (auto simp add: untracked_def cleanup_empty)
next
  case Signal
  then show ?thesis
    using assms by (auto simp add: untracked_def gracefulShutdown_def destroy_def)
qed (use assms in \<open>auto simp add: untracked_def onTracked_def\<close>)

lemma run_untracked:
  assumes "untracked s"
  shows "untracked (run setupMiddleware evs s) \<and>
         isShuttingDown (run setupMiddleware evs s) = (isShuttingDown s \<or> Signal \<in> set evs)"
  using assms
proof (induction evs arbitrary: s)
  case Nil
  then show ?case by simp
next
  case (Cons e es)
  show ?case
  proof (cases "exited s")
    case None
    note st = step_untracked[OF Cons.prems, of e]
    from Cons.IH[OF st[THEN conjunct1]] st None
    show ?thesis by auto
  next
    case (Some code)
    then have "isShuttingDown s" using Cons.prems by (simp add: untracked_def)
    then show ?thesis using Some Cons.prems by simp
  qed
qed

lemma startServer_untracked: "untracked startServer"
  by (simp add: untracked_def startServer_def initialGuard_def)

text \<open>
  C9. \<open>setupMiddleware\<close> does not install the guard's middleware. So whatever happens to the
  server as constructed (requests of any kind, events on responses, ticks of the reaper,
  signals), no handler of the guard is ever installed and both tracker maps stay empty. The
  interval timer of the class runs from the start until the first signal: the first signal
  runs \<open>gracefulShutdown\<close>, which calls \<open>destroy\<close> on the guard.
\<close>

theorem guard_middleware_never_installed:
  "SlowLorisMiddleware \<notin> set setupMiddleware \<and>
   installed (run setupMiddleware evs startServer) = [] \<and>
   connectionMap (guardState (run setupMiddleware evs startServer)) = Map.empty \<and>
   downloadMap (guardState (run setupMiddleware evs startServer)) = Map.empty \<and>
   cleanupInterval (guardState (run setupMiddleware evs startServer)) = (Signal \<notin> set evs) \<and>
   guardState (gracefulShutdown (s\<lparr>isShuttingDown := False\<rparr>)) = destroy (guardState s)"
proof -
  have "untracked (run setupMiddleware evs startServer) \<and>
        isShuttingDown (run setupMiddleware evs startServer) =
          (isShuttingDown startServer \<or> Signal \<in> set evs)"
    by (rule run_untracked[OF startServer_untracked])
  then show ?thesis
    by (simp add: untracked_def setupMiddleware_without_guard gracefulShutdown_def
        startServer_def)
qed

theorem guard_middleware_never_installed_witness:
  "connectionMap (guardState (run setupMiddleware
      [HttpRequest (healthRequest ''10.0.0.1'') 0, HttpRequest (snapshotRequest ''10.0.0.1'') 1,
       ReaperTick 30000, ResponseFinish 0 30001, Signal] startServer)) ''10.0.0.1'' = None \<and>
   downloadMap (guardState (run setupMiddleware
      [HttpRequest (healthRequest ''10.0.0.1'') 0, HttpRequest (snapshotRequest ''10.0.0.1'') 1,
       ReaperTick 30000, ResponseFinish 0 30001, Signal] startServer)) ''10.0.0.1'' = None \<and>
   cleanupInterval (guardState (run setupMiddleware
      [HttpRequest (healthRequest ''10.0.0.1'') 0, HttpRequest (snapshotRequest ''10.0.0.1'') 1,
       ReaperTick 30000, ResponseFinish 0 30001, Signal] startServer)) = False"
proof -
  define evs where "evs =
      [HttpRequest (healthRequest ''10.0.0.1'') 0, HttpRequest (snapshotRequest ''10.0.0.1'') 1,
       ReaperTick 30000, ResponseFinish 0 30001, Signal]"
  have "Signal \<in> set evs" by (simp add: evs_def)
  then show ?thesis
    unfolding evs_def[symmetric]
    using guard_middleware_never_installed[of evs] by simp
qed

text \<open>With the middleware installed, the same first request is tracked.\<close>

lemma guard_middleware_if_installed:
  "map_option connections
     (connectionMap
        (guardState (run setupMiddlewareWithGuard
           [HttpRequest (healthRequest ''10.0.0.1'') 0] startServer)) ''10.0.0.1'') = Some 1"
  by (simp add: setupMiddlewareWithGuard_def startServer_def initialGuard_def
      middleware_def healthRequest_simps healthRequest_passes isIpBlocked_def addConnection_def
      newConnectionTracker_def shouldBlock_numeric rateLimiter_def Let_def
      CONNECTION_TIMEOUT_def RATE_LIMIT_max_def)

subsection \<open>The rate limiter\<close>

lemma RATE_LIMIT_skip_iff: "RATE_LIMIT_skip req = isSnapshotsGet req"
  by (simp add: RATE_LIMIT_skip_def isSnapshotsGet_def)

lemma listingRequest_simps:
  "\<not> RATE_LIMIT_skip (listingRequest ''10.0.0.1'')"
  "req_ip (listingRequest ''10.0.0.1'') = ''10.0.0.1''"
  "bodyAccepted (listingRequest ''10.0.0.1'')"
  "isRequestValid (listingRequest ''10.0.0.1'')"
  by (simp_all add: RATE_LIMIT_skip_def listingRequest_def isRequestValid_def)

lemma listing_counted:
  "exited s = None \<Longrightarrow>
   exited (step setupMiddleware (HttpRequest (listingRequest ''10.0.0.1'') now) s) = None \<and>
   limiterHits (step setupMiddleware (HttpRequest (listingRequest ''10.0.0.1'') now) s) =
     (limiterHits s)(''10.0.0.1'' := limiterHits s ''10.0.0.1'' + 1)"
  by (simp add: setupMiddleware_def rateLimiter_def listingRequest_simps Let_def
      RATE_LIMIT_keyGenerator_def)

lemma listings_counted:
  "exited s = None \<Longrightarrow>
   exited (run setupMiddleware (replicate n (HttpRequest (listingRequest ''10.0.0.1'') now)) s)
     = None \<and>
   limiterHits (run setupMiddleware (replicate n (HttpRequest (listingRequest ''10.0.0.1'') now)) s)
     ''10.0.0.1'' = limiterHits s ''10.0.0.1'' + n"
proof (induction n arbitrary: s)
  case 0
  then show ?case by simp
next
  case (Suc n)
  note st = listing_counted[OF Suc.prems, of now]
  from Suc.IH[OF st[THEN conjunct1]] st Suc.prems
  show ?case by simp
qed

text \<open>
  C10. Every \<open>GET\<close> request whose path starts with \<open>/snapshots/\<close> (a download, a header
  lookup, or the listing requested as \<open>/snapshots/\<close>) is skipped by the rate limiter: it is
  passed on without being counted, whatever the hits of its address are, so it is never
  refused by the limiter. Every other request is counted under \<open>req.ip\<close> and is refused
  once the hits exceed 200.
\<close>

theorem snapshot_gets_skip_rate_limit:
  "(req_method req = ''GET'' \<and> prefix ''/snapshots/'' (req_path req) \<longrightarrow>
      RATE_LIMIT_skip req \<and>
      rateLimiter req hits = (True, hits) \<and>
      applyMiddleware RateLimit req now s = (True, s)) \<and>
   (\<not> (req_method req = ''GET'' \<and> prefix ''/snapshots/'' (req_path req)) \<longrightarrow>
      \<not> RATE_LIMIT_skip req \<and>
      rateLimiter req hits =
        (hits (req_ip req) + 1 \<le> 200, hits(req_ip req := hits (req_ip req) + 1)))"
proof -
  have "hits' = limiterHits s \<Longrightarrow> s\<lparr>limiterHits := hits'\<rparr> = s" for hits'
    by simp
  then show ?thesis
    by (auto simp add: RATE_LIMIT_skip_def rateLimiter_def Let_def RATE_LIMIT_max_def
        RATE_LIMIT_keyGenerator_def)
qed

theorem snapshot_gets_skip_rate_limit_witness:
  "req_method (snapshotRequest ''10.0.0.1'') = ''GET'' \<and>
   prefix ''/snapshots/'' (req_path (snapshotRequest ''10.0.0.1'')) \<and>
   rateLimiter (snapshotRequest ''10.0.0.1'') (\<lambda>key. 200) = (True, \<lambda>key. 200) \<and>
   req_method (headerRequest ''10.0.0.1'') = ''GET'' \<and>
   prefix ''/snapshots/'' (req_path (headerRequest ''10.0.0.1'')) \<and>
   rateLimiter (headerRequest ''10.0.0.1'') (\<lambda>key. 200) = (True, \<lambda>key. 200) \<and>
   req_method (listingSlashRequest ''10.0.0.1'') = ''GET'' \<and>
   prefix ''/snapshots/'' (req_path (listingSlashRequest ''10.0.0.1'')) \<and>
   rateLimiter (listingSlashRequest ''10.0.0.1'') (\<lambda>key. 200) = (True, \<lambda>key. 200) \<and>
   \<not> (req_method (healthRequest ''10.0.0.1'') = ''GET'' \<and>
      prefix ''/snapshots/'' (req_path (healthRequest ''10.0.0.1''))) \<and>
   fst (rateLimiter (healthRequest ''10.0.0.1'') (\<lambda>key. 200)) = False \<and>
   snd (rateLimiter (healthRequest ''10.0.0.1'') (\<lambda>key. 200)) ''10.0.0.1'' = 201"
proof -
  have a: "req_method (snapshotRequest ''10.0.0.1'') = ''GET'' \<and>
           prefix ''/snapshots/'' (req_path (snapshotRequest ''10.0.0.1''))"
    by (simp add: snapshotRequest_def)
  have h: "req_method (headerRequest ''10.0.0.1'') = ''GET'' \<and>
           prefix ''/snapshots/'' (req_path (headerRequest ''10.0.0.1''))"
    by (simp add: headerRequest_def)
  have l: "req_method (listingSlashRequest ''10.0.0.1'') = ''GET'' \<and>
           prefix ''/snapshots/'' (req_path (listingSlashRequest ''10.0.0.1''))"
    by (simp add: listingSlashRequest_def)
  have b: "\<not> (req_method (healthRequest ''10.0.0.1'') = ''GET'' \<and>
      prefix ''/snapshots/'' (req_path (healthRequest ''10.0.0.1'')))"
    by (simp add: healthRequest_def)
  have c: "req_ip (healthRequest ''10.0.0.1'') = ''10.0.0.1''"
    by (simp add: healthRequest_def)
  show ?thesis
    using snapshot_gets_skip_rate_limit[of "snapshotRequest ''10.0.0.1''" "\<lambda>key. 200" 0 startServer]
      snapshot_gets_skip_rate_limit[of "headerRequest ''10.0.0.1''" "\<lambda>key. 200" 0 startServer]
      snapshot_gets_skip_rate_limit[of "listingSlashRequest ''10.0.0.1''" "\<lambda>key. 200" 0 startServer]
      snapshot_gets_skip_rate_limit[of "healthRequest ''10.0.0.1''" "\<lambda>key. 200" 0 startServer]
      a h l b
    by (simp add: c)
qed

text \<open>
  The request \<open>GET /snapshots\<close>, without the slash, is outside that condition: its path does
  not start with \<open>/snapshots/\<close>. It is counted like the requests of every other route, and
  after 200 of them from one address the next is refused.
\<close>

lemma listing_without_slash_counted:
  "req_method (listingRequest ''10.0.0.1'') = ''GET'' \<and>
   req_path (listingRequest ''10.0.0.1'') = ''/snapshots'' \<and>
   \<not> RATE_LIMIT_skip (listingRequest ''10.0.0.1'') \<and>
   limiterHits
     (run setupMiddleware (replicate 200 (HttpRequest (listingRequest ''10.0.0.1'') 0))
        startServer) ''10.0.0.1'' = 200 \<and>
   fst (applyMiddleware RateLimit (listingRequest ''10.0.0.1'') 0
     (run setupMiddleware (replicate 200 (HttpRequest (listingRequest ''10.0.0.1'') 0))
        startServer)) = False"
proof -
  define S where "S = run setupMiddleware
      (replicate 200 (HttpRequest (listingRequest ''10.0.0.1'') 0)) startServer"
  have "exited startServer = None" by (simp add: startServer_def)
  from listings_counted[OF this, of 200 0]
  have S: "limiterHits S ''10.0.0.1'' = 200"
    by (simp add: S_def startServer_def)
  show ?thesis
    unfolding S_def[symmetric]
    using S
    by (simp add: listingRequest_simps rateLimiter_def Let_def RATE_LIMIT_keyGenerator_def
        RATE_LIMIT_max_def)
       (simp add: listingRequest_def)
qed

end
